theory Spec2Isabelle
  imports Main "HOL-Library.Char_ord" "HOL-Library.List_Lexorder"
begin

section \<open>Data model: cells, columns and dataframes\<close>

text \<open>
  The service (\<^verbatim>\<open>src/backend/main.py\<close>) works on pandas dataframes. A dataframe is
  modelled as its index length and the ordered list of its labelled columns; a column is
  its dtype and its cells. Floating-point values are never computed on by the service
  itself (the arithmetic lives in the external libraries), so their type is a parameter
  \<open>'f\<close>. A missing value (\<^verbatim>\<open>NaN\<close>, \<^verbatim>\<open>None\<close>) is \<open>NullC\<close>; \<open>ObjC n\<close>
  is a JSON list or dictionary, of which only its length \<open>n\<close> matters to the service.
\<close>

datatype dtype =
    IntDtype | UIntDtype | FloatDtype | ComplexDtype | BoolDtype
  | ObjectDtype | StringDtype | CategoryDtype | DatetimeDtype | TimedeltaDtype

datatype 'f cell = IntC int | FloatC 'f | BoolC bool | StrC string | NullC | ObjC nat

text \<open>The cells that are numbers: Python's \<^verbatim>\<open>int\<close>, \<^verbatim>\<open>float\<close> and \<^verbatim>\<open>bool\<close>.\<close>

fun is_number :: "'f cell \<Rightarrow> bool" where
  "is_number (IntC _) = True"
| "is_number (FloatC _) = True"
| "is_number (BoolC _) = True"
| "is_number _ = False"

text \<open>A parsed number, an integer or a float, as a cell.\<close>

fun number_cell :: "int + 'f \<Rightarrow> 'f cell" where
  "number_cell (Inl i) = IntC i"
| "number_cell (Inr x) = FloatC x"

record 'f column =
  dtype :: dtype
  cells :: "'f cell list"

record 'f dataframe =
  index_len :: nat
  columns :: "(string \<times> 'f column) list"

text \<open>\<^verbatim>\<open>df.columns\<close>: the column labels, in order.\<close>

definition column_names :: "'f dataframe \<Rightarrow> string list" where
  "column_names df = map fst (columns df)"

text \<open>\<^verbatim>\<open>pd.api.types.is_numeric_dtype\<close>: integers, floats, complex numbers and booleans.\<close>

fun is_numeric_dtype :: "dtype \<Rightarrow> bool" where
  "is_numeric_dtype IntDtype = True"
| "is_numeric_dtype UIntDtype = True"
| "is_numeric_dtype FloatDtype = True"
| "is_numeric_dtype ComplexDtype = True"
| "is_numeric_dtype BoolDtype = True"
| "is_numeric_dtype _ = False"

text \<open>\<^verbatim>\<open>pd.api.types.is_integer_dtype\<close>: signed and unsigned integers, not booleans.\<close>

fun is_integer_dtype :: "dtype \<Rightarrow> bool" where
  "is_integer_dtype IntDtype = True"
| "is_integer_dtype UIntDtype = True"
| "is_integer_dtype _ = False"

text \<open>\<^verbatim>\<open>Series.dropna()\<close> and \<^verbatim>\<open>Series.unique()\<close> (first occurrences, in order).\<close>

definition dropna :: "'f cell list \<Rightarrow> 'f cell list" where
  "dropna vs = filter (\<lambda>v. v \<noteq> NullC) vs"

fun unique :: "'a list \<Rightarrow> 'a list" where
  "unique [] = []"
| "unique (v # vs) = v # unique (filter (\<lambda>w. w \<noteq> v) vs)"

text \<open>\<^verbatim>\<open>Series.nunique(dropna=True)\<close>: the number of distinct non-null values.\<close>

definition nunique :: "'f column \<Rightarrow> nat" where
  "nunique c = length (unique (dropna (cells c)))"

section \<open>Schema detector\<close>

text \<open>
  \<^verbatim>\<open>detect_column_types\<close> (lines 56-68). The loop \<^verbatim>\<open>for col in df.columns\<close> reads
  \<^verbatim>\<open>df[col]\<close>, the column carrying that label, so the model walks the labelled columns.
  \<open>low_cardinality_integer\<close> is the inner test, "treat low-cardinality integers as
  categorical".
\<close>

definition low_cardinality_integer :: "'f column \<Rightarrow> bool" where
  "low_cardinality_integer c \<longleftrightarrow> is_integer_dtype (dtype c) \<and> nunique c \<le> 10"

fun detect_loop ::
  "(string \<times> 'f column) list \<Rightarrow> string list \<times> string list \<Rightarrow> string list \<times> string list" where
  "detect_loop [] (numerical, categorical) = (numerical, categorical)"
| "detect_loop ((col, c) # rest) (numerical, categorical) =
     (if is_numeric_dtype (dtype c) then
        (if low_cardinality_integer c
         then detect_loop rest (numerical, categorical @ [col])
         else detect_loop rest (numerical @ [col], categorical))
      else detect_loop rest (numerical, categorical @ [col]))"

definition detect_column_types :: "'f dataframe \<Rightarrow> string list \<times> string list" where
  "detect_column_types df = detect_loop (columns df) ([], [])"

section \<open>Exceptions\<close>

text \<open>
  A Python exception is its class and its message (\<^verbatim>\<open>str(e)\<close>). The detail of an
  \<^verbatim>\<open>HTTPException\<close> is text, except for the two messages that interpolate
  \<^verbatim>\<open>list(missing)\<close>, whose order is that of a hash set: those keep the set and the
  feature list as data.
\<close>

datatype exn_kind = ValueError | TypeError | KeyError | IndexError | OtherError

datatype py_exception = PyExc exn_kind string

datatype detail =
    Text string
  | MissingRequiredColumns "string set" "string list"
  | CsvMissingRequiredColumns "string set" "string list"

datatype raised = HTTPException nat detail | Exception py_exception

text \<open>
  \<^verbatim>\<open>detect_target_column\<close> (lines 70-78). \<^verbatim>\<open>if target_param:\<close> tests truthiness:
  \<^verbatim>\<open>None\<close> and the empty string both take the candidate path.
\<close>

definition truthy_str :: "string option \<Rightarrow> bool" where
  "truthy_str p = (case p of None \<Rightarrow> False | Some s \<Rightarrow> s \<noteq> [])"

definition target_candidates :: "string list" where
  "target_candidates = [''Churn'', ''Exited'', ''churn'', ''target'']"

fun first_candidate :: "string list \<Rightarrow> string list \<Rightarrow> py_exception + string" where
  "first_candidate [] cols =
     Inl (PyExc ValueError ''No target column found. Please specify with ?target= parameter'')"
| "first_candidate (candidate # rest) cols =
     (if candidate \<in> set cols then Inr candidate else first_candidate rest cols)"

definition target_not_found :: "string \<Rightarrow> py_exception" where
  "target_not_found t =
     PyExc ValueError (''Target column '' @ [CHR 0x27] @ t @ [CHR 0x27] @ '' not found in dataset'')"

definition detect_target_column :: "'f dataframe \<Rightarrow> string option \<Rightarrow> py_exception + string" where
  "detect_target_column df target_param =
     (if truthy_str target_param then
        (case target_param of
           Some t \<Rightarrow> if t \<in> set (column_names df) then Inr t else Inl (target_not_found t)
         | None \<Rightarrow> first_candidate target_candidates (column_names df))
      else first_candidate target_candidates (column_names df))"

section \<open>Strings\<close>

text \<open>
  \<^verbatim>\<open>str.lower\<close> and \<^verbatim>\<open>str.endswith\<close>. Strings are byte lists; lowering acts on
  the ASCII capitals, which is all that decides whether a lowered name ends with
  \<^verbatim>\<open>id\<close>.
\<close>

definition lower_char :: "char \<Rightarrow> char" where
  "lower_char c =
     (let n = (of_char c :: nat) in if 65 \<le> n \<and> n \<le> 90 then char_of (n + 32) else c)"

definition lower :: "string \<Rightarrow> string" where
  "lower s = map lower_char s"

definition endswith :: "string \<Rightarrow> string \<Rightarrow> bool" where
  "endswith s suffix \<longleftrightarrow>
     length suffix \<le> length s \<and> drop (length s - length suffix) s = suffix"

section \<open>Dataframe operations\<close>

text \<open>\<^verbatim>\<open>df[col]\<close> for one label: the column, or \<^verbatim>\<open>KeyError\<close>.\<close>

definition getitem :: "'f dataframe \<Rightarrow> string \<Rightarrow> py_exception + 'f column" where
  "getitem df col =
     (case map_of (columns df) col of
        None \<Rightarrow> Inl (PyExc KeyError col)
      | Some c \<Rightarrow> Inr c)"

text \<open>\<^verbatim>\<open>df[labels]\<close> for a list of labels: the columns in the order asked for.\<close>

fun select_columns ::
  "(string \<times> 'f column) list \<Rightarrow> string list \<Rightarrow> py_exception + (string \<times> 'f column) list" where
  "select_columns cs [] = Inr []"
| "select_columns cs (l # ls) =
     (case map_of cs l of
        None \<Rightarrow> Inl (PyExc KeyError l)
      | Some c \<Rightarrow>
          (case select_columns cs ls of
             Inl e \<Rightarrow> Inl e
           | Inr rest \<Rightarrow> Inr ((l, c) # rest)))"

definition getitem_frame :: "'f dataframe \<Rightarrow> string list \<Rightarrow> py_exception + 'f dataframe" where
  "getitem_frame df labels =
     (case select_columns (columns df) labels of
        Inl e \<Rightarrow> Inl e
      | Inr cs \<Rightarrow> Inr \<lparr>index_len = index_len df, columns = cs\<rparr>)"

text \<open>
  \<^verbatim>\<open>df[col] = values\<close>: an existing label keeps its position and gets the new values, a
  new label is appended as the last column. \<open>setitem\<close> is the assignment of an array,
  which pandas refuses when its length is not that of the index.
\<close>

definition set_column :: "'f dataframe \<Rightarrow> string \<Rightarrow> 'f column \<Rightarrow> 'f dataframe" where
  "set_column df col c =
     (if col \<in> set (column_names df)
      then df\<lparr>columns := map (\<lambda>(l, old). if l = col then (l, c) else (l, old)) (columns df)\<rparr>
      else df\<lparr>columns := columns df @ [(col, c)]\<rparr>)"

definition setitem :: "'f dataframe \<Rightarrow> string \<Rightarrow> 'f column \<Rightarrow> py_exception + 'f dataframe" where
  "setitem df col c =
     (if length (cells c) = index_len df then Inr (set_column df col c)
      else Inl (PyExc ValueError ''Length of values does not match length of index''))"

text \<open>
  \<^verbatim>\<open>pd.DataFrame([input_data])\<close>: one row, one column per key of the JSON object, the
  dtype inferred from the single value.
\<close>

fun infer_dtype :: "'f cell \<Rightarrow> dtype" where
  "infer_dtype (IntC _) = IntDtype"
| "infer_dtype (FloatC _) = FloatDtype"
| "infer_dtype (BoolC _) = BoolDtype"
| "infer_dtype _ = ObjectDtype"

definition from_record :: "(string \<times> 'f cell) list \<Rightarrow> 'f dataframe" where
  "from_record input_data =
     \<lparr>index_len = 1,
      columns = map (\<lambda>(k, v). (k, \<lparr>dtype = infer_dtype v, cells = [v]\<rparr>)) input_data\<rparr>"

section \<open>The external libraries\<close>

text \<open>
  Parsing and printing CSV, the number parser behind \<^verbatim>\<open>pd.to_numeric\<close>, Python's
  \<^verbatim>\<open>str\<close>, \<^verbatim>\<open>int\<close> and \<^verbatim>\<open>float\<close>, and everything of scikit-learn are calls into
  libraries. They are parameters of the model: functions that return a value or raise.
  \<open>read_csv\<close> stands for \<^verbatim>\<open>content.decode('utf-8')\<close> followed by \<^verbatim>\<open>pd.read_csv\<close>;
  \<open>predict_proba\<close> for \<^verbatim>\<open>pipeline.predict_proba(X)[:, 1]\<close>. The type \<open>'m\<close> is what a
  fitted pipeline has learnt.
\<close>

datatype transformer = OneHotEncoder | StandardScaler

type_synonym preprocessors = "(string \<times> transformer \<times> string list) list"

datatype 'm pipeline_obj = Pipeline preprocessors "'m option"

record ('f, 'm) externals =
  read_csv :: "string \<Rightarrow> py_exception + 'f dataframe"
  to_csv :: "'f dataframe \<Rightarrow> string"
  parse_numeric :: "string \<Rightarrow> (int + 'f) option"
  str_of :: "'f cell \<Rightarrow> string"
  py_int :: "'f cell \<Rightarrow> py_exception + int"
  py_float :: "'f cell \<Rightarrow> py_exception + 'f"
  train_test_split ::
    "'f dataframe \<Rightarrow> 'f column \<Rightarrow>
       py_exception + ('f dataframe \<times> 'f dataframe \<times> 'f column \<times> 'f column)"
  fit :: "preprocessors \<Rightarrow> 'f dataframe \<Rightarrow> 'f column \<Rightarrow> py_exception + 'm"
  predict :: "'m pipeline_obj \<Rightarrow> 'f dataframe \<Rightarrow> py_exception + 'f column"
  predict_proba :: "'m pipeline_obj \<Rightarrow> 'f dataframe \<Rightarrow> py_exception + 'f column"
  accuracy_score :: "'f column \<Rightarrow> 'f column \<Rightarrow> py_exception + 'f"
  precision_score :: "'f column \<Rightarrow> 'f column \<Rightarrow> py_exception + 'f"
  recall_score :: "'f column \<Rightarrow> 'f column \<Rightarrow> py_exception + 'f"
  f1_score :: "'f column \<Rightarrow> 'f column \<Rightarrow> py_exception + 'f"
  roc_auc_score :: "'f column \<Rightarrow> 'f column \<Rightarrow> py_exception + 'f"
  confusion_matrix :: "'f column \<Rightarrow> 'f column \<Rightarrow> py_exception + int list list"

text \<open>
  \<^verbatim>\<open>pd.to_numeric(series, errors='raise')\<close>: a series of numeric dtype is returned as it
  is; otherwise every value is converted. Numbers and missing values stay. Anything of
  length 0 (the empty string, an empty list or dictionary) becomes a missing value. A
  string becomes the number the parser reads and raises \<^verbatim>\<open>ValueError\<close> when the parser
  refuses it; a list or dictionary that is not empty raises \<^verbatim>\<open>TypeError\<close>.
\<close>

fun coerce_cell :: "('f, 'm) externals \<Rightarrow> 'f cell \<Rightarrow> py_exception + 'f cell" where
  "coerce_cell ext (StrC s) =
     (if s = [] then Inr NullC
      else (case parse_numeric ext s of
              None \<Rightarrow> Inl (PyExc ValueError (''Unable to parse string '' @ s))
            | Some x \<Rightarrow> Inr (number_cell x)))"
| "coerce_cell ext (ObjC n) =
     (if n = 0 then Inr NullC else Inl (PyExc TypeError ''Invalid object type''))"
| "coerce_cell ext v = Inr v"

fun coerce_cells :: "('f, 'm) externals \<Rightarrow> 'f cell list \<Rightarrow> py_exception + 'f cell list" where
  "coerce_cells ext [] = Inr []"
| "coerce_cells ext (v # vs) =
     (case coerce_cell ext v of
        Inl e \<Rightarrow> Inl e
      | Inr w \<Rightarrow>
          (case coerce_cells ext vs of
             Inl e \<Rightarrow> Inl e
           | Inr ws \<Rightarrow> Inr (w # ws)))"

fun is_int_cell :: "'f cell \<Rightarrow> bool" where
  "is_int_cell (IntC _) = True"
| "is_int_cell _ = False"

definition to_numeric :: "('f, 'm) externals \<Rightarrow> 'f column \<Rightarrow> py_exception + 'f column" where
  "to_numeric ext c =
     (if is_numeric_dtype (dtype c) then Inr c
      else (case coerce_cells ext (cells c) of
              Inl e \<Rightarrow> Inl e
            | Inr ws \<Rightarrow>
                Inr \<lparr>dtype = (if list_all is_int_cell ws then IntDtype else FloatDtype),
                     cells = ws\<rparr>))"


fun converts_to :: "('f, 'm) externals \<Rightarrow> 'f cell \<Rightarrow> 'f cell \<Rightarrow> bool" where
  "converts_to ext (StrC s) w \<longleftrightarrow>
     (if s = [] then w = NullC
      else (case parse_numeric ext s of None \<Rightarrow> False | Some x \<Rightarrow> w = number_cell x))"
| "converts_to ext (ObjC n) w \<longleftrightarrow> n = 0 \<and> w = NullC"
| "converts_to ext v w \<longleftrightarrow> w = v"

text \<open>\<^verbatim>\<open>create_pipeline\<close> (lines 80-99); the pipeline it returns is not fitted yet.\<close>

definition create_pipeline :: "string list \<Rightarrow> string list \<Rightarrow> py_exception + 'm pipeline_obj" where
  "create_pipeline categorical_cols numerical_cols =
     (let preprocessors =
            (if categorical_cols \<noteq> [] then [(''cat'', OneHotEncoder, categorical_cols)] else [])
          @ (if numerical_cols \<noteq> [] then [(''num'', StandardScaler, numerical_cols)] else [])
      in if preprocessors = []
         then Inl (PyExc ValueError ''No features found for preprocessing'')
         else Inr (Pipeline preprocessors None))"

section \<open>Process state and files\<close>

text \<open>
  The module's globals (lines 33-39), all \<^verbatim>\<open>None\<close> at import, and the two files the
  service touches: the training data and the saved model. A saved model is the dictionary
  \<^verbatim>\<open>joblib.dump\<close> wrote (a key that is absent reads as \<^verbatim>\<open>None\<close> through
  \<^verbatim>\<open>dict.get\<close>), or a file that \<^verbatim>\<open>joblib.load\<close> refuses. \<open>write_error\<close> is the
  exception \<^verbatim>\<open>os.makedirs\<close> or \<^verbatim>\<open>joblib.dump\<close> would raise, if any.
\<close>

record 'm globals =
  model :: "'m pipeline_obj option"
  pipeline :: "'m pipeline_obj option"
  feature_columns :: "string list option"
  target_column :: "string option"
  categorical_columns :: "string list option"
  numerical_columns :: "string list option"
  categorical_values :: "(string \<times> string list) list option"

record 'm model_data =
  saved_pipeline :: "'m pipeline_obj option"
  saved_feature_columns :: "string list option"
  saved_target_column :: "string option"
  saved_categorical_columns :: "string list option"
  saved_numerical_columns :: "string list option"
  saved_categorical_values :: "(string \<times> string list) list option"

datatype 'm joblib_file = Unreadable py_exception | Dumped "'m model_data"

record 'm filesystem =
  data_file :: "string option"
  model_file :: "'m joblib_file option"
  write_error :: "py_exception option"

definition initial_globals :: "'m globals" where
  "initial_globals =
     \<lparr>model = None, pipeline = None, feature_columns = None, target_column = None,
      categorical_columns = None, numerical_columns = None, categorical_values = None\<rparr>"

text \<open>
  The five assignments from a loaded dictionary, shared by \<^verbatim>\<open>startup_event\<close> and
  \<^verbatim>\<open>get_schema\<close>.
\<close>

definition load_schema :: "'m model_data \<Rightarrow> 'm globals \<Rightarrow> 'm globals" where
  "load_schema d g =
     g\<lparr>feature_columns := saved_feature_columns d,
       target_column := saved_target_column d,
       categorical_columns := saved_categorical_columns d,
       numerical_columns := saved_numerical_columns d,
       categorical_values := saved_categorical_values d\<rparr>"

text \<open>\<^verbatim>\<open>startup_event\<close> (lines 101-118); it only prints when loading fails.\<close>

definition startup_event :: "'m globals \<times> 'm filesystem \<Rightarrow> 'm globals \<times> 'm filesystem" where
  "startup_event w =
     (case w of (g, files) \<Rightarrow>
        (case model_file files of
           None \<Rightarrow> (g, files)
         | Some (Unreadable e) \<Rightarrow> (g, files)
         | Some (Dumped d) \<Rightarrow> (load_schema d (g\<lparr>pipeline := saved_pipeline d\<rparr>), files)))"

text \<open>
  The handlers' outer \<^verbatim>\<open>except HTTPException: raise\<close> and
  \<^verbatim>\<open>except Exception as e: raise HTTPException(status_code=500, detail=f"...: {str(e)}")\<close>.
\<close>

definition to_http_error :: "string \<Rightarrow> raised + 'a \<Rightarrow> raised + 'a" where
  "to_http_error prefix r =
     (case r of
        Inl (Exception (PyExc k msg)) \<Rightarrow> Inl (HTTPException 500 (Text (prefix @ msg)))
      | Inl (HTTPException code d) \<Rightarrow> Inl (HTTPException code d)
      | Inr v \<Rightarrow> Inr v)"

section \<open>Read-only endpoints\<close>




section \<open>The schema endpoint\<close>


definition none_not_iterable :: py_exception where
  "none_not_iterable =
     PyExc TypeError ([CHR 0x27] @ ''NoneType'' @ [CHR 0x27] @ '' object is not iterable'')"




section \<open>Inference endpoints\<close>

text \<open>
  The validation loop of both handlers (lines 250-260 and 299-309):
  \<^verbatim>\<open>if numerical_columns: for col in numerical_columns: if col in df.columns: ...\<close>.
  The inner \<^verbatim>\<open>except (ValueError, TypeError)\<close> turns a failed conversion into an
  \<^verbatim>\<open>HTTPException\<close> with status 400; the two handlers differ in its detail only, which
  is the parameter \<open>mk\<close>.
\<close>

definition truthy_list :: "'a list option \<Rightarrow> bool" where
  "truthy_list p = (case p of None \<Rightarrow> False | Some xs \<Rightarrow> xs \<noteq> [])"

fun coerce_loop ::
  "('f, 'm) externals \<Rightarrow> (string \<Rightarrow> 'f column \<Rightarrow> detail) \<Rightarrow> string list \<Rightarrow> 'f dataframe \<Rightarrow>
     raised + 'f dataframe" where
  "coerce_loop ext mk [] df = Inr df"
| "coerce_loop ext mk (col # rest) df =
     (if col \<in> set (column_names df) then
        (case getitem df col of
           Inl e \<Rightarrow> Inl (Exception e)
         | Inr c \<Rightarrow>
             (case to_numeric ext c of
                Inl (PyExc k msg) \<Rightarrow>
                  (if k = ValueError \<or> k = TypeError
                   then Inl (HTTPException 400 (mk col c))
                   else Inl (Exception (PyExc k msg)))
              | Inr c' \<Rightarrow> coerce_loop ext mk rest (set_column df col c')))
      else coerce_loop ext mk rest df)"

definition validate_numeric ::
  "('f, 'm) externals \<Rightarrow> (string \<Rightarrow> 'f column \<Rightarrow> detail) \<Rightarrow> string list option \<Rightarrow>
     'f dataframe \<Rightarrow> raised + 'f dataframe" where
  "validate_numeric ext mk nums df =
     (if truthy_list nums then
        (case nums of None \<Rightarrow> Inr df | Some cols \<Rightarrow> coerce_loop ext mk cols df)
      else Inr df)"

definition not_trained :: raised where
  "not_trained =
     HTTPException 400
       (Text ''Model not trained yet. Please train the model first using the /train endpoint.'')"

text \<open>
  \<^verbatim>\<open>POST /predict\<close> (lines 224-268). The warning printed for extra columns has no
  effect on the response and is left out.
\<close>

record 'f prediction_response =
  prediction :: int
  probability :: 'f

definition must_be_numeric :: "('f, 'm) externals \<Rightarrow> string \<Rightarrow> 'f column \<Rightarrow> detail" where
  "must_be_numeric ext col c =
     Text (''Column '' @ [CHR 0x27] @ col @ [CHR 0x27] @ '' must be numeric. Received: ''
           @ (case cells c of [] \<Rightarrow> [] | v # _ \<Rightarrow> str_of ext v))"

definition first_value :: "'f column \<Rightarrow> py_exception + 'f cell" where
  "first_value c =
     (case cells c of
        [] \<Rightarrow> Inl (PyExc IndexError ''index 0 is out of bounds for axis 0 with size 0'')
      | v # _ \<Rightarrow> Inr v)"

definition predict_single_body ::
  "('f, 'm) externals \<Rightarrow> 'm globals \<Rightarrow> 'm pipeline_obj \<Rightarrow> (string \<times> 'f cell) list \<Rightarrow>
     raised + 'f prediction_response" where
  "predict_single_body ext g p input_data =
     (let df_input = from_record input_data in
      case feature_columns g of
        None \<Rightarrow> Inl (Exception none_not_iterable)
      | Some fc \<Rightarrow>
          (let missing = set fc - set (column_names df_input) in
           if missing \<noteq> {} then Inl (HTTPException 400 (MissingRequiredColumns missing fc))
           else
             (case getitem_frame df_input fc of
                Inl e \<Rightarrow> Inl (Exception e)
              | Inr df_selected \<Rightarrow>
             (case validate_numeric ext (must_be_numeric ext) (numerical_columns g) df_selected of
                Inl r \<Rightarrow> Inl r
              | Inr df_checked \<Rightarrow>
             (case predict ext p df_checked of
                Inl e \<Rightarrow> Inl (Exception e)
              | Inr preds \<Rightarrow>
             (case first_value preds of
                Inl e \<Rightarrow> Inl (Exception e)
              | Inr pred \<Rightarrow>
             (case predict_proba ext p df_checked of
                Inl e \<Rightarrow> Inl (Exception e)
              | Inr probas \<Rightarrow>
             (case first_value probas of
                Inl e \<Rightarrow> Inl (Exception e)
              | Inr proba \<Rightarrow>
             (case py_int ext pred of
                Inl e \<Rightarrow> Inl (Exception e)
              | Inr i \<Rightarrow>
             (case py_float ext proba of
                Inl e \<Rightarrow> Inl (Exception e)
              | Inr x \<Rightarrow> Inr \<lparr>prediction = i, probability = x\<rparr>))))))))))"

definition predict_single ::
  "('f, 'm) externals \<Rightarrow> 'm globals \<Rightarrow> (string \<times> 'f cell) list \<Rightarrow>
     raised + 'f prediction_response" where
  "predict_single ext g input_data =
     (case pipeline g of
        None \<Rightarrow> Inl not_trained
      | Some p \<Rightarrow> to_http_error ''Prediction error: '' (predict_single_body ext g p input_data))"

text \<open>
  \<^verbatim>\<open>POST /predict-batch\<close> (lines 270-332). \<open>batch_frame\<close> is the dataframe
  \<^verbatim>\<open>df_out\<close> of lines 311-315; the response streams its CSV text.
\<close>

record batch_response =
  csv_content :: string
  content_disposition :: string

definition only_numeric :: "string \<Rightarrow> 'f column \<Rightarrow> detail" where
  "only_numeric col c =
     Text (''Column '' @ [CHR 0x27] @ col @ [CHR 0x27]
           @ '' must contain only numeric values. Found non-numeric values in your CSV.'')"

definition batch_frame ::
  "('f, 'm) externals \<Rightarrow> 'm globals \<Rightarrow> 'm pipeline_obj \<Rightarrow> 'f dataframe \<Rightarrow>
     raised + 'f dataframe" where
  "batch_frame ext g p df =
     (case feature_columns g of
        None \<Rightarrow> Inl (Exception none_not_iterable)
      | Some fc \<Rightarrow>
          (let missing = set fc - set (column_names df) in
           if missing \<noteq> {} then Inl (HTTPException 400 (CsvMissingRequiredColumns missing fc))
           else
             (case getitem_frame df fc of
                Inl e \<Rightarrow> Inl (Exception e)
              | Inr df_features \<Rightarrow>
             (case validate_numeric ext only_numeric (numerical_columns g) df_features of
                Inl r \<Rightarrow> Inl r
              | Inr df_checked \<Rightarrow>
             (case predict ext p df_checked of
                Inl e \<Rightarrow> Inl (Exception e)
              | Inr preds \<Rightarrow>
             (case predict_proba ext p df_checked of
                Inl e \<Rightarrow> Inl (Exception e)
              | Inr probas \<Rightarrow>
             (case setitem df ''Prediction'' preds of
                Inl e \<Rightarrow> Inl (Exception e)
              | Inr df_pred \<Rightarrow>
             (case setitem df_pred ''Probability'' probas of
                Inl e \<Rightarrow> Inl (Exception e)
              | Inr df_out \<Rightarrow> Inr df_out))))))))"

definition predict_batch_body ::
  "('f, 'm) externals \<Rightarrow> 'm globals \<Rightarrow> 'm pipeline_obj \<Rightarrow> string \<Rightarrow> string \<Rightarrow>
     raised + batch_response" where
  "predict_batch_body ext g p filename content =
     (case read_csv ext content of
        Inl e \<Rightarrow> Inl (Exception e)
      | Inr df \<Rightarrow>
          (case batch_frame ext g p df of
             Inl r \<Rightarrow> Inl r
           | Inr df_out \<Rightarrow>
               Inr \<lparr>csv_content = to_csv ext df_out,
                    content_disposition = ''attachment; filename=predictions_'' @ filename\<rparr>))"

definition predict_batch ::
  "('f, 'm) externals \<Rightarrow> 'm globals \<Rightarrow> string \<Rightarrow> string \<Rightarrow> raised + batch_response" where
  "predict_batch ext g filename content =
     (case pipeline g of
        None \<Rightarrow> Inl not_trained
      | Some p \<Rightarrow>
          (if \<not> endswith filename ''.csv''
           then Inl (HTTPException 400 (Text ''File must be a CSV file. Please upload a .csv file.''))
           else to_http_error ''Batch prediction error: ''
                  (predict_batch_body ext g p filename content)))"

section \<open>The training endpoint\<close>

text \<open>
  \<^verbatim>\<open>POST /train\<close> (lines 167-222), in the order of the source. Every assignment to a
  global is an update of the globals record, so a failure further down returns the
  globals as they are at that point. \<open>train_load\<close> is lines 171-181, \<open>train_fit\<close> lines
  182-186, \<open>compute_metrics\<close> lines 187-200, \<open>train_body\<close> the whole \<^verbatim>\<open>try\<close> block.
\<close>

datatype 'f metric_value = Score 'f | Counts "(string \<times> int) list"

record 'f training_response =
  resp_message :: string
  resp_metrics :: "(string \<times> 'f metric_value) list"
  resp_target_column :: string
  resp_feature_columns :: "string list"
  resp_categorical_columns :: "string list"
  resp_numerical_columns :: "string list"

record 'f training_data =
  td_X :: "'f dataframe"
  td_y :: "'f column"
  td_target :: string
  td_features :: "string list"
  td_numerical :: "string list"
  td_categorical :: "string list"

definition feature_column_list :: "'f dataframe \<Rightarrow> string \<Rightarrow> string list" where
  "feature_column_list df t =
     filter (\<lambda>c. c \<noteq> t \<and> \<not> endswith (lower c) ''id'') (column_names df)"

fun collect_categorical_values ::
  "('f, 'm) externals \<Rightarrow> 'f dataframe \<Rightarrow> string list \<Rightarrow>
     py_exception + (string \<times> string list) list" where
  "collect_categorical_values ext df [] = Inr []"
| "collect_categorical_values ext df (c # cs) =
     (case getitem df c of
        Inl e \<Rightarrow> Inl e
      | Inr col \<Rightarrow>
          (case collect_categorical_values ext df cs of
             Inl e \<Rightarrow> Inl e
           | Inr rest \<Rightarrow>
               Inr ((c, sort (map (str_of ext) (unique (dropna (cells col))))) # rest)))"

definition data_file_not_found :: raised where
  "data_file_not_found =
     HTTPException 404
       (Text ''Data file not found. Please ensure data/Churn_Modelling.csv exists.'')"

definition train_load ::
  "('f, 'm) externals \<Rightarrow> string option \<Rightarrow> 'm globals \<Rightarrow> 'm filesystem \<Rightarrow>
     (raised + 'f training_data) \<times> 'm globals" where
  "train_load ext target g files =
     (case data_file files of
        None \<Rightarrow> (Inl data_file_not_found, g)
      | Some content \<Rightarrow>
     (case read_csv ext content of
        Inl e \<Rightarrow> (Inl (Exception e), g)
      | Inr df \<Rightarrow>
     (case detect_target_column df target of
        Inl e \<Rightarrow> (Inl (Exception e), g)
      | Inr t \<Rightarrow>
     (let g1 = g\<lparr>target_column := Some t\<rparr>;
          fc = feature_column_list df t;
          g2 = g1\<lparr>feature_columns := Some fc\<rparr>
      in
     (case getitem_frame df fc of
        Inl e \<Rightarrow> (Inl (Exception e), g2)
      | Inr X \<Rightarrow>
     (case detect_column_types X of (nums, cats) \<Rightarrow>
     (let g3 = g2\<lparr>numerical_columns := Some nums, categorical_columns := Some cats\<rparr> in
     (case collect_categorical_values ext df cats of
        Inl e \<Rightarrow> (Inl (Exception e), g3)
      | Inr cv \<Rightarrow>
     (let g4 = g3\<lparr>categorical_values := Some cv\<rparr> in
     (case getitem df t of
        Inl e \<Rightarrow> (Inl (Exception e), g4)
      | Inr y \<Rightarrow>
          (Inr \<lparr>td_X = X, td_y = y, td_target = t, td_features = fc,
                td_numerical = nums, td_categorical = cats\<rparr>, g4)))))))))))"

record ('f, 'm) fitted =
  fit_pipeline :: "'m pipeline_obj"
  fit_y_test :: "'f column"
  fit_y_pred :: "'f column"
  fit_y_proba :: "'f column"

definition train_fit ::
  "('f, 'm) externals \<Rightarrow> 'f training_data \<Rightarrow> 'm globals \<Rightarrow>
     (raised + ('f, 'm) fitted) \<times> 'm globals" where
  "train_fit ext td g =
     (case train_test_split ext (td_X td) (td_y td) of
        Inl e \<Rightarrow> (Inl (Exception e), g)
      | Inr (X_train, X_test, y_train, y_test) \<Rightarrow>
     (case create_pipeline (td_categorical td) (td_numerical td) of
        Inl e \<Rightarrow> (Inl (Exception e), g)
      | Inr (Pipeline pre unfitted) \<Rightarrow>
     (let g5 = g\<lparr>pipeline := Some (Pipeline pre unfitted)\<rparr> in
     (case fit ext pre X_train y_train of
        Inl e \<Rightarrow> (Inl (Exception e), g5)
      | Inr m \<Rightarrow>
     (let p = Pipeline pre (Some m);
          g6 = g5\<lparr>pipeline := Some p\<rparr>
      in
     (case predict ext p X_test of
        Inl e \<Rightarrow> (Inl (Exception e), g6)
      | Inr y_pred \<Rightarrow>
     (case predict_proba ext p X_test of
        Inl e \<Rightarrow> (Inl (Exception e), g6)
      | Inr y_proba \<Rightarrow>
          (Inr \<lparr>fit_pipeline = p, fit_y_test = y_test, fit_y_pred = y_pred,
                fit_y_proba = y_proba\<rparr>, g6))))))))"

text \<open>\<^verbatim>\<open>cm[i, j]\<close> on the matrix \<^verbatim>\<open>confusion_matrix\<close> returned.\<close>

definition cm_at :: "int list list \<Rightarrow> nat \<Rightarrow> nat \<Rightarrow> py_exception + int" where
  "cm_at cm i j =
     (if i < length cm \<and> j < length (cm ! i) then Inr (cm ! i ! j)
      else Inl (PyExc IndexError ''index is out of bounds''))"

definition confusion_counts :: "int list list \<Rightarrow> py_exception + (string \<times> int) list" where
  "confusion_counts cm =
     (case cm_at cm 0 0 of Inl e \<Rightarrow> Inl e | Inr tn \<Rightarrow>
     (case cm_at cm 0 1 of Inl e \<Rightarrow> Inl e | Inr fp \<Rightarrow>
     (case cm_at cm 1 0 of Inl e \<Rightarrow> Inl e | Inr fn \<Rightarrow>
     (case cm_at cm 1 1 of Inl e \<Rightarrow> Inl e | Inr tp \<Rightarrow>
        Inr [(''true_negatives'', tn), (''false_positives'', fp),
             (''false_negatives'', fn), (''true_positives'', tp)]))))"

definition compute_metrics ::
  "('f, 'm) externals \<Rightarrow> ('f, 'm) fitted \<Rightarrow> py_exception + (string \<times> 'f metric_value) list" where
  "compute_metrics ext r =
     (case accuracy_score ext (fit_y_test r) (fit_y_pred r) of Inl e \<Rightarrow> Inl e | Inr acc \<Rightarrow>
     (case precision_score ext (fit_y_test r) (fit_y_pred r) of Inl e \<Rightarrow> Inl e | Inr prec \<Rightarrow>
     (case recall_score ext (fit_y_test r) (fit_y_pred r) of Inl e \<Rightarrow> Inl e | Inr rec \<Rightarrow>
     (case f1_score ext (fit_y_test r) (fit_y_pred r) of Inl e \<Rightarrow> Inl e | Inr f1 \<Rightarrow>
     (case roc_auc_score ext (fit_y_test r) (fit_y_proba r) of Inl e \<Rightarrow> Inl e | Inr auc \<Rightarrow>
     (case confusion_matrix ext (fit_y_test r) (fit_y_pred r) of Inl e \<Rightarrow> Inl e | Inr cm \<Rightarrow>
     (case confusion_counts cm of Inl e \<Rightarrow> Inl e | Inr counts \<Rightarrow>
        Inr [(''accuracy'', Score acc), (''precision'', Score prec), (''recall'', Score rec),
             (''f1_score'', Score f1), (''roc_auc'', Score auc),
             (''confusion_matrix'', Counts counts)])))))))"

text \<open>
  \<open>dump_model\<close> is the dictionary handed to \<^verbatim>\<open>joblib.dump\<close> (lines 202-209): the
  current values of the globals.
\<close>

definition dump_model :: "'m globals \<Rightarrow> 'm model_data" where
  "dump_model g =
     \<lparr>saved_pipeline = pipeline g,
      saved_feature_columns = feature_columns g,
      saved_target_column = target_column g,
      saved_categorical_columns = categorical_columns g,
      saved_numerical_columns = numerical_columns g,
      saved_categorical_values = categorical_values g\<rparr>"

definition train_body ::
  "('f, 'm) externals \<Rightarrow> string option \<Rightarrow> 'm globals \<times> 'm filesystem \<Rightarrow>
     (raised + 'f training_response) \<times> ('m globals \<times> 'm filesystem)" where
  "train_body ext target w =
     (case w of (g, files) \<Rightarrow>
     (case train_load ext target g files of
        (Inl r, g4) \<Rightarrow> (Inl r, (g4, files))
      | (Inr td, g4) \<Rightarrow>
     (case train_fit ext td g4 of
        (Inl r, g6) \<Rightarrow> (Inl r, (g6, files))
      | (Inr fitted, g6) \<Rightarrow>
     (case compute_metrics ext fitted of
        Inl e \<Rightarrow> (Inl (Exception e), (g6, files))
      | Inr metrics \<Rightarrow>
     (case write_error files of
        Some e \<Rightarrow> (Inl (Exception e), (g6, files))
      | None \<Rightarrow>
          (Inr \<lparr>resp_message = ''Model trained successfully'',
                resp_metrics = metrics,
                resp_target_column = td_target td,
                resp_feature_columns = td_features td,
                resp_categorical_columns = td_categorical td,
                resp_numerical_columns = td_numerical td\<rparr>,
           (g6\<lparr>model := pipeline g6\<rparr>,
            files\<lparr>model_file := Some (Dumped (dump_model g6))\<rparr>)))))))"

definition train_model ::
  "('f, 'm) externals \<Rightarrow> string option \<Rightarrow> 'm globals \<times> 'm filesystem \<Rightarrow>
     (raised + 'f training_response) \<times> ('m globals \<times> 'm filesystem)" where
  "train_model ext target w =
     (case train_body ext target w of
        (r, w') \<Rightarrow> (to_http_error ''Training error: '' r, w'))"

section \<open>The application: one request, one response\<close>





section \<open>Sample data\<close>

text \<open>
  A small customer table in the shape of the bank data the tests post (credit card flag,
  geography, age, balance, the \<^verbatim>\<open>Exited\<close> label), and stand-ins for the external
  libraries that are simple enough to evaluate: the split returns the whole table twice,
  fitting learns nothing, every row is predicted as class 1 with probability 1, and,
  as logistic regression does, prediction refuses a table with a missing value. They
  serve to run the model on concrete requests.
\<close>

definition demo_frame :: "int dataframe" where
  "demo_frame =
     \<lparr>index_len = 11,
      columns =
        [(''CustomerId'', \<lparr>dtype = IntDtype,
            cells = map IntC [101, 102, 103, 104, 105, 106, 107, 108, 109, 110, 111]\<rparr>),
         (''Geography'', \<lparr>dtype = ObjectDtype,
            cells = map StrC [''France'', ''Spain'', ''France'', ''Germany'', ''Spain'', ''France'',
                              ''France'', ''Germany'', ''Spain'', ''France'', ''Spain'']\<rparr>),
         (''Age'', \<lparr>dtype = IntDtype,
            cells = map IntC [35, 40, 30, 41, 42, 43, 44, 45, 46, 47, 48]\<rparr>),
         (''Balance'', \<lparr>dtype = FloatDtype,
            cells = map FloatC [0, 8380, 15966, 0, 12551, 11375, 0, 11504, 14205, 13460, 10201]\<rparr>),
         (''HasCrCard'', \<lparr>dtype = IntDtype,
            cells = map IntC [1, 0, 1, 0, 1, 1, 1, 1, 0, 1, 1]\<rparr>),
         (''Exited'', \<lparr>dtype = IntDtype,
            cells = map IntC [1, 0, 1, 0, 0, 1, 0, 1, 0, 0, 0]\<rparr>)]\<rparr>"

definition demo_batch :: "int dataframe" where
  "demo_batch =
     \<lparr>index_len = 2,
      columns =
        [(''Geography'', \<lparr>dtype = ObjectDtype, cells = [StrC ''France'', StrC ''Spain'']\<rparr>),
         (''Age'', \<lparr>dtype = IntDtype, cells = [IntC 35, IntC 40]\<rparr>),
         (''Balance'', \<lparr>dtype = FloatDtype, cells = [FloatC 100000, FloatC 150000]\<rparr>),
         (''HasCrCard'', \<lparr>dtype = IntDtype, cells = [IntC 1, IntC 0]\<rparr>),
         (''Notes'', \<lparr>dtype = ObjectDtype, cells = [StrC ''vip'', NullC]\<rparr>)]\<rparr>"

definition demo_batch_labelled :: "int dataframe" where
  "demo_batch_labelled =
     \<lparr>index_len = 2,
      columns =
        [(''Prediction'', \<lparr>dtype = ObjectDtype, cells = [StrC ''stay'', StrC ''leave'']\<rparr>),
         (''Geography'', \<lparr>dtype = ObjectDtype, cells = [StrC ''France'', StrC ''Spain'']\<rparr>),
         (''Age'', \<lparr>dtype = IntDtype, cells = [IntC 35, IntC 40]\<rparr>),
         (''Balance'', \<lparr>dtype = FloatDtype, cells = [FloatC 100000, FloatC 150000]\<rparr>),
         (''HasCrCard'', \<lparr>dtype = IntDtype, cells = [IntC 1, IntC 0]\<rparr>)]\<rparr>"

definition demo_batch_bad :: "int dataframe" where
  "demo_batch_bad =
     \<lparr>index_len = 2,
      columns =
        [(''Geography'', \<lparr>dtype = ObjectDtype, cells = [StrC ''France'', StrC ''Spain'']\<rparr>),
         (''Age'', \<lparr>dtype = ObjectDtype, cells = [StrC ''600'', StrC ''old'']\<rparr>),
         (''Balance'', \<lparr>dtype = FloatDtype, cells = [FloatC 100000, FloatC 150000]\<rparr>),
         (''HasCrCard'', \<lparr>dtype = IntDtype, cells = [IntC 1, IntC 0]\<rparr>)]\<rparr>"

definition demo_read_csv :: "string \<Rightarrow> py_exception + int dataframe" where
  "demo_read_csv content =
     (if content = ''training table'' then Inr demo_frame
      else if content = ''batch'' then Inr demo_batch
      else if content = ''batch without extras'' then
        Inr (demo_batch\<lparr>columns := butlast (columns demo_batch)\<rparr>)
      else if content = ''batch with a Prediction column'' then Inr demo_batch_labelled
      else if content = ''batch with a word for an age'' then Inr demo_batch_bad
      else Inl (PyExc OtherError ''Error tokenizing data''))"

definition has_missing :: "int dataframe \<Rightarrow> bool" where
  "has_missing df = list_ex (\<lambda>lc. NullC \<in> set (cells (snd lc))) (columns df)"

definition demo_str_of :: "int cell \<Rightarrow> string" where
  "demo_str_of v =
     (case v of
        StrC s \<Rightarrow> s
      | IntC i \<Rightarrow> (if i = 0 then ''0'' else if i = 1 then ''1'' else ''n'')
      | _ \<Rightarrow> ''?'')"

definition demo_ext :: "(int, unit) externals" where
  "demo_ext =
     \<lparr>read_csv = demo_read_csv,
      to_csv = (\<lambda>df. concat (map (\<lambda>l. l @ '','') (column_names df))),
      parse_numeric = (\<lambda>s. if s = ''600'' then Some (Inl 600) else None),
      str_of = demo_str_of,
      py_int = (\<lambda>v. case v of IntC i \<Rightarrow> Inr i
                     | _ \<Rightarrow> Inl (PyExc ValueError ''invalid literal for int()'')),
      py_float = (\<lambda>v. case v of FloatC x \<Rightarrow> Inr x | IntC i \<Rightarrow> Inr i
                     | _ \<Rightarrow> Inl (PyExc TypeError ''float() argument must be a number'')),
      train_test_split = (\<lambda>X y. Inr (X, X, y, y)),
      fit = (\<lambda>pre X y. Inr ()),
      predict =
        (\<lambda>p df. if has_missing df then Inl (PyExc ValueError ''Input X contains NaN.'')
                else Inr \<lparr>dtype = IntDtype, cells = replicate (index_len df) (IntC 1)\<rparr>),
      predict_proba =
        (\<lambda>p df. Inr \<lparr>dtype = FloatDtype, cells = replicate (index_len df) (FloatC 1)\<rparr>),
      accuracy_score = (\<lambda>y_true y_pred. Inr 1),
      precision_score = (\<lambda>y_true y_pred. Inr 1),
      recall_score = (\<lambda>y_true y_pred. Inr 1),
      f1_score = (\<lambda>y_true y_pred. Inr 1),
      roc_auc_score = (\<lambda>y_true y_score. Inr 1),
      confusion_matrix = (\<lambda>y_true y_pred. Inr [[7, 0], [0, 4]])\<rparr>"


definition demo_files :: "unit filesystem" where
  "demo_files = \<lparr>data_file = Some ''training table'', model_file = None, write_error = None\<rparr>"

definition demo_pipeline :: "unit pipeline_obj" where
  "demo_pipeline =
     Pipeline [(''cat'', OneHotEncoder, [''Geography'', ''HasCrCard'']),
               (''num'', StandardScaler, [''Age'', ''Balance''])] (Some ())"

definition demo_trained :: "unit globals" where
  "demo_trained =
     \<lparr>model = Some demo_pipeline,
      pipeline = Some demo_pipeline,
      feature_columns = Some [''Geography'', ''Age'', ''Balance'', ''HasCrCard''],
      target_column = Some ''Exited'',
      categorical_columns = Some [''Geography'', ''HasCrCard''],
      numerical_columns = Some [''Age'', ''Balance''],
      categorical_values =
        Some [(''Geography'', [''France'', ''Germany'', ''Spain'']), (''HasCrCard'', [''0'', ''1''])]\<rparr>"

definition demo_record :: "(string \<times> int cell) list" where
  "demo_record =
     [(''CreditScore'', IntC 600), (''Geography'', StrC ''France''), (''Age'', IntC 35),
      (''Balance'', IntC 100000), (''HasCrCard'', IntC 1)]"




definition demo_response :: "int training_response" where
  "demo_response =
     \<lparr>resp_message = ''Model trained successfully'',
      resp_metrics =
        [(''accuracy'', Score 1), (''precision'', Score 1), (''recall'', Score 1),
         (''f1_score'', Score 1), (''roc_auc'', Score 1),
         (''confusion_matrix'',
          Counts [(''true_negatives'', 7), (''false_positives'', 0),
                  (''false_negatives'', 0), (''true_positives'', 4)])],
      resp_target_column = ''Exited'',
      resp_feature_columns = [''Geography'', ''Age'', ''Balance'', ''HasCrCard''],
      resp_categorical_columns = [''Geography'', ''HasCrCard''],
      resp_numerical_columns = [''Age'', ''Balance'']\<rparr>"

definition demo_saved :: "unit filesystem" where
  "demo_saved = demo_files\<lparr>model_file := Some (Dumped (dump_model demo_trained))\<rparr>"

section \<open>Properties of the schema detector\<close>

lemma detect_loop_eq:
  "detect_loop cs (ns, ks) =
     (ns @ map fst (filter (\<lambda>(n, c). is_numeric_dtype (dtype c) \<and> \<not> low_cardinality_integer c) cs),
      ks @ map fst (filter (\<lambda>(n, c). \<not> (is_numeric_dtype (dtype c) \<and> \<not> low_cardinality_integer c)) cs))"
  by (induction cs arbitrary: ns ks) auto

lemma key_in_filter:
  assumes "distinct (map fst xs)" and "(k, v) \<in> set xs"
  shows "k \<in> fst ` set (filter Q xs) \<longleftrightarrow> Q (k, v)"
proof
  assume "k \<in> fst ` set (filter Q xs)"
  then obtain v' where "(k, v') \<in> set xs" and q: "Q (k, v')" by auto
  with assms have "v' = v" by (meson eq_key_imp_eq_value)
  with q show "Q (k, v)" by simp
next
  assume "Q (k, v)"
  with assms(2) have "(k, v) \<in> set (filter Q xs)" by simp
  then show "k \<in> fst ` set (filter Q xs)" by (rule image_eqI [rotated]) simp
qed

lemma detect_column_types_eq:
  "detect_column_types df =
     (map fst (filter (\<lambda>x. is_numeric_dtype (dtype (snd x)) \<and> \<not> low_cardinality_integer (snd x)) (columns df)),
      map fst (filter (\<lambda>x. \<not> (is_numeric_dtype (dtype (snd x)) \<and> \<not> low_cardinality_integer (snd x))) (columns df)))"
  by (simp add: detect_column_types_def detect_loop_eq case_prod_unfold)

text \<open>
  C2. Every column of the dataframe is classified: with a numeric dtype it is numerical,
  unless its dtype is an integer one and it has at most 10 distinct non-null values, in
  which case it is categorical; with any other dtype it is categorical.
\<close>

theorem detect_column_types_classifies:
  assumes "detect_column_types df = (numerical, categorical)"
    and "distinct (column_names df)"
    and "(col, c) \<in> set (columns df)"
  shows "(is_numeric_dtype (dtype c) \<and> \<not> (is_integer_dtype (dtype c) \<and> nunique c \<le> 10)
            \<longrightarrow> col \<in> set numerical \<and> col \<notin> set categorical)
       \<and> (is_numeric_dtype (dtype c) \<and> is_integer_dtype (dtype c) \<and> nunique c \<le> 10
            \<longrightarrow> col \<in> set categorical \<and> col \<notin> set numerical)
       \<and> (\<not> is_numeric_dtype (dtype c) \<longrightarrow> col \<in> set categorical \<and> col \<notin> set numerical)"
proof -
  have d: "distinct (map fst (columns df))"
    using assms(2) by (simp add: column_names_def)
  let ?P = "\<lambda>x :: string \<times> 'a column.
              is_numeric_dtype (dtype (snd x)) \<and> \<not> low_cardinality_integer (snd x)"
  have nums: "set numerical = fst ` set (filter ?P (columns df))"
    and cats: "set categorical = fst ` set (filter (\<lambda>x. \<not> ?P x) (columns df))"
  proof -
    have eqs: "map fst (filter ?P (columns df)) = numerical
        \<and> map fst (filter (\<lambda>x. \<not> ?P x) (columns df)) = categorical"
      using assms(1) unfolding detect_column_types_eq prod.inject .
    show "set numerical = fst ` set (filter ?P (columns df))"
      by (simp only: eqs [THEN conjunct1, symmetric] set_map)
    show "set categorical = fst ` set (filter (\<lambda>x. \<not> ?P x) (columns df))"
      by (simp only: eqs [THEN conjunct2, symmetric] set_map)
  qed
  have in_nums: "col \<in> set numerical \<longleftrightarrow>
      is_numeric_dtype (dtype c) \<and> \<not> low_cardinality_integer c"
    unfolding nums using key_in_filter [OF d assms(3), of ?P] by simp
  have in_cats: "col \<in> set categorical \<longleftrightarrow>
      \<not> (is_numeric_dtype (dtype c) \<and> \<not> low_cardinality_integer c)"
    unfolding cats using key_in_filter [OF d assms(3), of "\<lambda>x. \<not> ?P x"] by simp
  show ?thesis
    unfolding in_nums in_cats low_cardinality_integer_def by blast
qed

theorem detect_column_types_classifies_witness:
  "detect_column_types demo_frame =
     ([''CustomerId'', ''Age'', ''Balance''], [''Geography'', ''HasCrCard'', ''Exited''])
   \<and> distinct (column_names demo_frame)
   \<and> (''HasCrCard'', \<lparr>dtype = IntDtype, cells = map IntC [1, 0, 1, 0, 1, 1, 1, 1, 0, 1, 1]\<rparr>)
        \<in> set (columns demo_frame)
   \<and> ''HasCrCard'' \<in> set [''Geography'', ''HasCrCard'', ''Exited'']"
proof -
  have h1: "detect_column_types demo_frame =
     ([''CustomerId'', ''Age'', ''Balance''], [''Geography'', ''HasCrCard'', ''Exited''])"
    by (simp add: demo_frame_def detect_column_types_def low_cardinality_integer_def
        nunique_def dropna_def)
  have h2: "distinct (column_names demo_frame)"
    by (simp add: demo_frame_def column_names_def)
  have h3: "(''HasCrCard'', \<lparr>dtype = IntDtype, cells = map IntC [1, 0, 1, 0, 1, 1, 1, 1, 0, 1, 1]\<rparr>)
        \<in> set (columns demo_frame)"
    by (simp add: demo_frame_def)
  show ?thesis
    using h1 h2 h3 detect_column_types_classifies [OF h1 h2 h3]
    by (simp add: nunique_def dropna_def)
qed

text \<open>
  C9. The two lists \<^verbatim>\<open>detect_column_types\<close> returns partition the columns of the
  dataframe: no column is in both, every column is in one of them, neither list repeats a
  column, and each list is the dataframe's column list restricted to its members, so the
  dataframe's order is kept. Column labels are distinct, as \<^verbatim>\<open>pd.read_csv\<close> makes
  them.
\<close>

theorem detect_column_types_partition:
  assumes "detect_column_types df = (numerical, categorical)"
    and "distinct (column_names df)"
  shows "set numerical \<inter> set categorical = {}
       \<and> set numerical \<union> set categorical = set (column_names df)
       \<and> distinct numerical \<and> distinct categorical
       \<and> numerical = filter (\<lambda>col. col \<in> set numerical) (column_names df)
       \<and> categorical = filter (\<lambda>col. col \<in> set categorical) (column_names df)"
proof -
  let ?P = "\<lambda>x :: string \<times> 'a column.
              is_numeric_dtype (dtype (snd x)) \<and> \<not> low_cardinality_integer (snd x)"
  have d: "distinct (map fst (columns df))"
    using assms(2) by (simp add: column_names_def)
  have eqs: "map fst (filter ?P (columns df)) = numerical
      \<and> map fst (filter (\<lambda>x. \<not> ?P x) (columns df)) = categorical"
    using assms(1) unfolding detect_column_types_eq prod.inject .
  have nums: "numerical = map fst (filter ?P (columns df))"
    and cats: "categorical = map fst (filter (\<lambda>x. \<not> ?P x) (columns df))"
    using eqs by simp_all
  have mem_n: "fst x \<in> set numerical \<longleftrightarrow> ?P x" if "x \<in> set (columns df)" for x
    using key_in_filter [OF d, of "fst x" "snd x" ?P] that by (simp add: nums)
  have mem_c: "fst x \<in> set categorical \<longleftrightarrow> \<not> ?P x" if "x \<in> set (columns df)" for x
    using key_in_filter [OF d, of "fst x" "snd x" "\<lambda>x. \<not> ?P x"] that by (simp add: cats)
  have sub_n: "set numerical \<subseteq> fst ` set (columns df)"
    and sub_c: "set categorical \<subseteq> fst ` set (columns df)"
    by (auto simp: nums cats)
  have disj: "set numerical \<inter> set categorical = {}"
  proof (rule ccontr)
    assume "set numerical \<inter> set categorical \<noteq> {}"
    then obtain k where k: "k \<in> set numerical" "k \<in> set categorical" by blast
    with sub_n obtain x where x: "x \<in> set (columns df)" "fst x = k" by auto
    with k mem_n [OF x(1)] mem_c [OF x(1)] show False by simp
  qed
  have cover: "set numerical \<union> set categorical = set (column_names df)"
  proof
    show "set numerical \<union> set categorical \<subseteq> set (column_names df)"
      using sub_n sub_c by (simp add: column_names_def)
    show "set (column_names df) \<subseteq> set numerical \<union> set categorical"
    proof
      fix k assume "k \<in> set (column_names df)"
      then obtain x where x: "x \<in> set (columns df)" "fst x = k"
        by (auto simp: column_names_def)
      with mem_n [OF x(1)] mem_c [OF x(1)] show "k \<in> set numerical \<union> set categorical"
        by auto
    qed
  qed
  have dn: "distinct numerical" unfolding nums using d by (rule distinct_map_filter)
  have dc: "distinct categorical" unfolding cats using d by (rule distinct_map_filter)
  have fn: "filter (\<lambda>col. col \<in> set numerical) (column_names df) = numerical"
  proof -
    have "filter (\<lambda>col. col \<in> set numerical) (map fst (columns df))
        = map fst (filter (\<lambda>x. fst x \<in> set numerical) (columns df))"
      by (simp add: filter_map comp_def)
    also have "filter (\<lambda>x. fst x \<in> set numerical) (columns df) = filter ?P (columns df)"
      by (rule filter_cong) (use mem_n in auto)
    finally show ?thesis by (simp add: column_names_def nums)
  qed
  have fc: "filter (\<lambda>col. col \<in> set categorical) (column_names df) = categorical"
  proof -
    have "filter (\<lambda>col. col \<in> set categorical) (map fst (columns df))
        = map fst (filter (\<lambda>x. fst x \<in> set categorical) (columns df))"
      by (simp add: filter_map comp_def)
    also have "filter (\<lambda>x. fst x \<in> set categorical) (columns df)
        = filter (\<lambda>x. \<not> ?P x) (columns df)"
      by (rule filter_cong) (use mem_c in auto)
    finally show ?thesis by (simp add: column_names_def cats)
  qed
  show ?thesis using disj cover dn dc fn fc by simp
qed

theorem detect_column_types_partition_witness:
  "detect_column_types demo_batch = ([''Balance''], [''Geography'', ''Age'', ''HasCrCard'', ''Notes''])
   \<and> distinct (column_names demo_batch)
   \<and> set [''Balance''] \<inter> set [''Geography'', ''Age'', ''HasCrCard'', ''Notes''] = {}
   \<and> set [''Balance''] \<union> set [''Geography'', ''Age'', ''HasCrCard'', ''Notes'']
       = set (column_names demo_batch)"
proof -
  have h1: "detect_column_types demo_batch
      = ([''Balance''], [''Geography'', ''Age'', ''HasCrCard'', ''Notes''])"
    by (simp add: demo_batch_def detect_column_types_def low_cardinality_integer_def
        nunique_def dropna_def)
  have h2: "distinct (column_names demo_batch)"
    by (simp add: demo_batch_def column_names_def)
  note p = detect_column_types_partition [OF h1 h2]
  show ?thesis
    by (intro conjI h1 h2 p [THEN conjunct1] p [THEN conjunct2, THEN conjunct1])
qed

section \<open>Target column selection\<close>

lemma first_candidate_find:
  "first_candidate cands cols =
     (case find (\<lambda>c. c \<in> set cols) cands of
        Some c \<Rightarrow> Inr c
      | None \<Rightarrow> Inl (PyExc ValueError ''No target column found. Please specify with ?target= parameter''))"
  by (induction cands) simp_all

text \<open>
  C3, the empty parameter. \<^verbatim>\<open>POST /train?target=\<close> hands the handler the empty
  string. It is no column of the table, yet no error is raised: the truthiness test sends
  it down the candidate path and \<^verbatim>\<open>Exited\<close> is returned.
\<close>

theorem detect_target_column_empty_counterexample:
  "detect_target_column demo_frame (Some '''') = Inr ''Exited''
   \<and> '''' \<notin> set (column_names demo_frame)"
  by (simp add: detect_target_column_def truthy_str_def target_candidates_def
      demo_frame_def column_names_def)

text \<open>
  C3. A non-empty target parameter is returned when it is a column of the dataframe and
  raises \<^verbatim>\<open>ValueError\<close> when it is not. With no parameter, or an empty one, the result
  is the first of \<^verbatim>\<open>Churn\<close>, \<^verbatim>\<open>Exited\<close>, \<^verbatim>\<open>churn\<close>, \<^verbatim>\<open>target\<close> (in that order)
  that is a column, and an error is raised exactly when none of the four is a column.
\<close>

theorem detect_target_column_selects:
  "(t \<noteq> [] \<longrightarrow>
      detect_target_column df (Some t) =
        (if t \<in> set (column_names df) then Inr t else Inl (target_not_found t)))
   \<and> (target_param = None \<or> target_param = Some [] \<longrightarrow>
      detect_target_column df target_param =
        (case find (\<lambda>c. c \<in> set (column_names df)) [''Churn'', ''Exited'', ''churn'', ''target''] of
           Some c \<Rightarrow> Inr c
         | None \<Rightarrow>
             Inl (PyExc ValueError ''No target column found. Please specify with ?target= parameter''))
      \<and> ((\<exists>e. detect_target_column df target_param = Inl e) \<longleftrightarrow>
           ''Churn'' \<notin> set (column_names df) \<and> ''Exited'' \<notin> set (column_names df)
           \<and> ''churn'' \<notin> set (column_names df) \<and> ''target'' \<notin> set (column_names df)))"
proof -
  have cand: "detect_target_column df p =
      first_candidate target_candidates (column_names df)"
    if "p = None \<or> p = Some []" for p
    using that by (auto simp: detect_target_column_def truthy_str_def)
  have a: "t \<noteq> [] \<longrightarrow>
      detect_target_column df (Some t) =
        (if t \<in> set (column_names df) then Inr t else Inl (target_not_found t))"
    by (simp add: detect_target_column_def truthy_str_def)
  have b: "first_candidate target_candidates (column_names df) =
        (case find (\<lambda>c. c \<in> set (column_names df)) [''Churn'', ''Exited'', ''churn'', ''target''] of
           Some c \<Rightarrow> Inr c
         | None \<Rightarrow>
             Inl (PyExc ValueError ''No target column found. Please specify with ?target= parameter''))"
    unfolding first_candidate_find target_candidates_def ..
  have c: "(\<exists>e. first_candidate target_candidates (column_names df) = Inl e) \<longleftrightarrow>
           ''Churn'' \<notin> set (column_names df) \<and> ''Exited'' \<notin> set (column_names df)
           \<and> ''churn'' \<notin> set (column_names df) \<and> ''target'' \<notin> set (column_names df)"
    by (simp add: target_candidates_def)
  show ?thesis
    using a b c cand [of target_param] by simp
qed

theorem detect_target_column_selects_witness:
  "detect_target_column demo_frame (Some ''Age'') = Inr ''Age''
   \<and> detect_target_column demo_frame (Some ''Churned'') = Inl (target_not_found ''Churned'')
   \<and> detect_target_column demo_frame None = Inr ''Exited''
   \<and> detect_target_column demo_frame (Some []) = Inr ''Exited''"
proof -
  have cols: "column_names demo_frame =
      [''CustomerId'', ''Geography'', ''Age'', ''Balance'', ''HasCrCard'', ''Exited'']"
    by (simp add: demo_frame_def column_names_def)
  show ?thesis
    using detect_target_column_selects [of "''Age''" demo_frame None]
      detect_target_column_selects [of "''Churned''" demo_frame "Some []"]
    by (simp add: cols)
qed

section \<open>Properties of training\<close>

lemma to_http_error_Inr: "to_http_error prefix r = Inr v \<longleftrightarrow> r = Inr v"
  by (auto simp: to_http_error_def split: sum.splits raised.splits py_exception.splits)

lemma train_model_Inr:
  "train_model ext target w = (Inr resp, w') \<longleftrightarrow> train_body ext target w = (Inr resp, w')"
  by (auto simp: train_model_def to_http_error_Inr split: prod.splits)

lemma train_load_Inr:
  assumes "train_load ext target g files = (Inr td, g4)"
  shows "\<exists>content df cv.
           data_file files = Some content \<and> read_csv ext content = Inr df
         \<and> detect_target_column df target = Inr (td_target td)
         \<and> td_features td = feature_column_list df (td_target td)
         \<and> getitem_frame df (td_features td) = Inr (td_X td)
         \<and> detect_column_types (td_X td) = (td_numerical td, td_categorical td)
         \<and> collect_categorical_values ext df (td_categorical td) = Inr cv
         \<and> g4 = g\<lparr>target_column := Some (td_target td),
                   feature_columns := Some (td_features td),
                   numerical_columns := Some (td_numerical td),
                   categorical_columns := Some (td_categorical td),
                   categorical_values := Some cv\<rparr>"
  using assms
  by (auto simp: train_load_def Let_def split: option.splits sum.splits prod.splits)

lemma train_fit_Inr:
  assumes "train_fit ext td g = (Inr r, g6)"
  shows "\<exists>pre m. fit_pipeline r = Pipeline pre (Some m)
           \<and> g6 = g\<lparr>pipeline := Some (Pipeline pre (Some m))\<rparr>"
  using assms
  by (auto simp: train_fit_def Let_def split: sum.splits prod.splits pipeline_obj.splits)

lemma compute_metrics_Inr:
  assumes "compute_metrics ext r = Inr ms"
  shows "\<exists>acc prec rec f1 auc counts.
           ms = [(''accuracy'', Score acc), (''precision'', Score prec), (''recall'', Score rec),
                 (''f1_score'', Score f1), (''roc_auc'', Score auc),
                 (''confusion_matrix'', Counts counts)]
         \<and> (\<exists>cm. confusion_matrix ext (fit_y_test r) (fit_y_pred r) = Inr cm
                \<and> confusion_counts cm = Inr counts)"
  using assms by (auto simp: compute_metrics_def split: sum.splits)

lemma train_body_Inr:
  assumes "train_body ext target (g, files) = (Inr resp, (g', files'))"
  shows "\<exists>td g4 r g6 ms.
           train_load ext target g files = (Inr td, g4)
         \<and> train_fit ext td g4 = (Inr r, g6)
         \<and> compute_metrics ext r = Inr ms
         \<and> write_error files = None
         \<and> resp = \<lparr>resp_message = ''Model trained successfully'',
                resp_metrics = ms,
                resp_target_column = td_target td,
                resp_feature_columns = td_features td,
                resp_categorical_columns = td_categorical td,
                resp_numerical_columns = td_numerical td\<rparr>
         \<and> g' = g6\<lparr>model := pipeline g6\<rparr>
         \<and> files' = files\<lparr>model_file := Some (Dumped (dump_model g6))\<rparr>"
  using assms
  by (auto simp: train_body_def split: sum.splits prod.splits option.splits)

lemma detect_column_types_subset:
  assumes "detect_column_types df = (nums, cats)"
  shows "set nums \<subseteq> set (column_names df)" and "set cats \<subseteq> set (column_names df)"
  using assms unfolding detect_column_types_eq column_names_def by auto

lemma select_columns_names:
  "select_columns cs labels = Inr sel \<Longrightarrow> map fst sel = labels"
  by (induction labels arbitrary: sel) (auto split: option.splits sum.splits)

lemma getitem_frame_names:
  "getitem_frame df labels = Inr X \<Longrightarrow> column_names X = labels"
  by (auto simp: getitem_frame_def column_names_def select_columns_names split: sum.splits)

lemma collect_categorical_values_keys:
  "collect_categorical_values ext df cats = Inr cv \<Longrightarrow> map fst cv = cats"
  by (induction cats arbitrary: cv) (auto split: sum.splits)

section \<open>Feature columns during training\<close>

lemma train_fit_features: "feature_columns (snd (train_fit ext td g)) = feature_columns g"
  by (simp add: train_fit_def Let_def split: sum.splits prod.splits pipeline_obj.splits)

lemma train_load_features:
  assumes "data_file files = Some content" and "read_csv ext content = Inr df"
    and "detect_target_column df target = Inr t"
  shows "feature_columns (snd (train_load ext target g files)) = Some (feature_column_list df t)"
  using assms
  by (simp add: train_load_def Let_def split: sum.splits prod.splits)

lemma train_body_globals:
  "fst (snd (train_body ext target (g, files))) = snd (train_load ext target g files)
   \<or> (\<exists>td g4 g6. train_load ext target g files = (Inr td, g4)
        \<and> g6 = snd (train_fit ext td g4)
        \<and> (fst (snd (train_body ext target (g, files))) = g6
           \<or> fst (snd (train_body ext target (g, files))) = g6\<lparr>model := pipeline g6\<rparr>))"
  by (auto simp: train_body_def split: sum.splits prod.splits option.splits)

lemma train_model_globals: "snd (train_model ext target w) = snd (train_body ext target w)"
  by (simp add: train_model_def split: prod.splits)

lemma feature_column_list_excludes:
  "c = t \<or> endswith (lower c) ''id'' \<Longrightarrow> c \<notin> set (feature_column_list df t)"
  by (auto simp: feature_column_list_def)

text \<open>
  C8. Once the training data is read and a target column found, \<^verbatim>\<open>feature_columns\<close> is
  the dataset's column list, in its order, without the target column and without the
  columns whose lowered name ends with \<^verbatim>\<open>id\<close>, whatever happens later in the request.
  When training succeeds, the saved schema has this list as its feature columns, and no
  excluded column is among its feature, numerical or categorical columns or the keys of
  its categorical values.
\<close>

theorem train_feature_columns:
  assumes "data_file files = Some content" and "read_csv ext content = Inr df"
    and "detect_target_column df target = Inr t"
  shows "feature_columns (fst (snd (train_model ext target (g, files)))) =
           Some (filter (\<lambda>c. c \<noteq> t \<and> \<not> endswith (lower c) ''id'') (column_names df))
       \<and> (\<forall>resp g' files'.
            train_model ext target (g, files) = (Inr resp, (g', files')) \<longrightarrow>
            (\<exists>d nums cats cv.
               model_file files' = Some (Dumped d)
             \<and> saved_target_column d = Some t
             \<and> saved_feature_columns d =
                 Some (filter (\<lambda>c. c \<noteq> t \<and> \<not> endswith (lower c) ''id'') (column_names df))
             \<and> resp_feature_columns resp =
                 filter (\<lambda>c. c \<noteq> t \<and> \<not> endswith (lower c) ''id'') (column_names df)
             \<and> saved_numerical_columns d = Some nums
             \<and> saved_categorical_columns d = Some cats
             \<and> saved_categorical_values d = Some cv
             \<and> (\<forall>c. c = t \<or> endswith (lower c) ''id'' \<longrightarrow>
                    c \<notin> set (resp_feature_columns resp) \<and> c \<notin> set nums
                  \<and> c \<notin> set cats \<and> c \<notin> fst ` set cv)))"
proof -
  let ?fc = "filter (\<lambda>c. c \<noteq> t \<and> \<not> endswith (lower c) ''id'') (column_names df)"
  have fc: "feature_column_list df t = ?fc"
    by (simp add: feature_column_list_def)
  have loaded: "feature_columns (snd (train_load ext target g files)) = Some ?fc"
    using train_load_features [OF assms] fc by simp
  have first: "feature_columns (fst (snd (train_model ext target (g, files)))) = Some ?fc"
    using train_body_globals [of ext target g files] loaded
    by (auto simp: train_model_globals train_fit_features)
  have second: "\<exists>d nums cats cv.
               model_file files' = Some (Dumped d)
             \<and> saved_target_column d = Some t
             \<and> saved_feature_columns d = Some ?fc
             \<and> resp_feature_columns resp = ?fc
             \<and> saved_numerical_columns d = Some nums
             \<and> saved_categorical_columns d = Some cats
             \<and> saved_categorical_values d = Some cv
             \<and> (\<forall>c. c = t \<or> endswith (lower c) ''id'' \<longrightarrow>
                    c \<notin> set (resp_feature_columns resp) \<and> c \<notin> set nums
                  \<and> c \<notin> set cats \<and> c \<notin> fst ` set cv)"
    if ok: "train_model ext target (g, files) = (Inr resp, (g', files'))" for resp g' files'
  proof -
    from ok have "train_body ext target (g, files) = (Inr resp, (g', files'))"
      by (simp add: train_model_Inr)
    from train_body_Inr [OF this] obtain td g4 r g6 where
      load: "train_load ext target g files = (Inr td, g4)"
      and fit: "train_fit ext td g4 = (Inr r, g6)"
      and resp: "resp_feature_columns resp = td_features td"
      and files': "files' = files\<lparr>model_file := Some (Dumped (dump_model g6))\<rparr>"
      by force
    from train_load_Inr [OF load] assms obtain cv where
      tgt: "td_target td = t"
      and feats: "td_features td = feature_column_list df t"
      and X: "getitem_frame df (td_features td) = Inr (td_X td)"
      and types: "detect_column_types (td_X td) = (td_numerical td, td_categorical td)"
      and cv: "collect_categorical_values ext df (td_categorical td) = Inr cv"
      and g4: "g4 = g\<lparr>target_column := Some (td_target td),
                   feature_columns := Some (td_features td),
                   numerical_columns := Some (td_numerical td),
                   categorical_columns := Some (td_categorical td),
                   categorical_values := Some cv\<rparr>"
      by auto
    from train_fit_Inr [OF fit] obtain pre m where
      g6: "g6 = g4\<lparr>pipeline := Some (Pipeline pre (Some m))\<rparr>"
      by blast
    have names: "column_names (td_X td) = ?fc"
      using getitem_frame_names [OF X] feats fc by simp
    have sub: "set (td_numerical td) \<subseteq> set ?fc" "set (td_categorical td) \<subseteq> set ?fc"
      using detect_column_types_subset [OF types] names by simp_all
    have keys: "fst ` set cv = set (td_categorical td)"
      using arg_cong [OF collect_categorical_values_keys [OF cv], of set] by simp
    have excl: "c \<notin> set ?fc" if "c = t \<or> endswith (lower c) ''id''" for c
      using feature_column_list_excludes [OF that, of df] fc by simp
    have saved: "model_file files' = Some (Dumped (dump_model g6))"
      "saved_target_column (dump_model g6) = Some t"
      "saved_feature_columns (dump_model g6) = Some ?fc"
      "saved_numerical_columns (dump_model g6) = Some (td_numerical td)"
      "saved_categorical_columns (dump_model g6) = Some (td_categorical td)"
      "saved_categorical_values (dump_model g6) = Some cv"
      by (simp_all add: files' g6 g4 dump_model_def feats fc tgt)
    have rfc: "resp_feature_columns resp = ?fc"
      by (simp add: resp feats fc)
    have out: "c \<notin> set (resp_feature_columns resp) \<and> c \<notin> set (td_numerical td)
            \<and> c \<notin> set (td_categorical td) \<and> c \<notin> fst ` set cv"
      if "c = t \<or> endswith (lower c) ''id''" for c
      using excl [OF that] sub unfolding keys rfc by blast
    show ?thesis
      using saved rfc out by blast
  qed
  show ?thesis using first second by blast
qed

theorem train_feature_columns_witness:
  "data_file demo_files = Some ''training table''
   \<and> read_csv demo_ext ''training table'' = Inr demo_frame
   \<and> detect_target_column demo_frame None = Inr ''Exited''
   \<and> column_names demo_frame =
       [''CustomerId'', ''Geography'', ''Age'', ''Balance'', ''HasCrCard'', ''Exited'']
   \<and> feature_columns (fst (snd (train_model demo_ext None (initial_globals, demo_files)))) =
       Some [''Geography'', ''Age'', ''Balance'', ''HasCrCard'']
   \<and> train_model demo_ext None (initial_globals, demo_files) =
       (Inr demo_response, (demo_trained, demo_saved))
   \<and> resp_feature_columns demo_response = [''Geography'', ''Age'', ''Balance'', ''HasCrCard'']"
proof -
  have h1: "data_file demo_files = Some ''training table''"
    by (simp add: demo_files_def)
  have h2: "read_csv demo_ext ''training table'' = Inr demo_frame"
    by (simp add: demo_ext_def demo_read_csv_def)
  have h3: "detect_target_column demo_frame None = Inr ''Exited''"
    by code_simp
  have h4: "train_model demo_ext None (initial_globals, demo_files) =
       (Inr demo_response, (demo_trained, demo_saved))"
    by code_simp
  have cols: "column_names demo_frame =
       [''CustomerId'', ''Geography'', ''Age'', ''Balance'', ''HasCrCard'', ''Exited'']"
    by (simp add: demo_frame_def column_names_def)
  have flt: "filter (\<lambda>c. c \<noteq> ''Exited'' \<and> \<not> endswith (lower c) ''id'')
        [''CustomerId'', ''Geography'', ''Age'', ''Balance'', ''HasCrCard'', ''Exited'']
      = [''Geography'', ''Age'', ''Balance'', ''HasCrCard'']"
    by (simp add: endswith_def lower_def lower_char_def char_of_eq_iff)
  note p = train_feature_columns [OF h1 h2 h3, of initial_globals]
  have a: "feature_columns (fst (snd (train_model demo_ext None (initial_globals, demo_files)))) =
       Some [''Geography'', ''Age'', ''Balance'', ''HasCrCard'']"
    using p [THEN conjunct1] by (simp only: cols flt)
  from p [THEN conjunct2, rule_format, OF h4]
  have b: "resp_feature_columns demo_response = [''Geography'', ''Age'', ''Balance'', ''HasCrCard'']"
    unfolding cols flt by blast
  show ?thesis
    by (intro conjI h1 h2 h3 cols a h4 b)
qed

section \<open>Which endpoints change the globals\<close>






section \<open>Properties of the numeric validation\<close>






lemma to_numeric_result_numeric:
  "to_numeric ext c = Inr c' \<Longrightarrow> is_numeric_dtype (dtype c')"
  by (auto simp: to_numeric_def split: if_splits sum.splits)

lemma to_numeric_idem:
  "to_numeric ext c = Inr c' \<Longrightarrow> to_numeric ext c' = Inr c'"
  using to_numeric_result_numeric [of ext c c'] by (simp add: to_numeric_def)

lemma getitem_in_names:
  "col \<in> set (column_names df) \<Longrightarrow> \<exists>c. getitem df col = Inr c"
  by (cases "map_of (columns df) col")
     (auto simp: getitem_def column_names_def map_of_eq_None_iff)

lemma getitem_names:
  "getitem df col = Inr c \<Longrightarrow> col \<in> set (column_names df)"
  by (auto simp: getitem_def column_names_def split: option.splits dest: map_of_SomeD intro: rev_image_eqI)

lemma map_of_replace:
  "map_of (map (\<lambda>(l, old). if l = col then (l, c) else (l, old)) xs) k =
     (if k = col then (if col \<in> fst ` set xs then Some c else None) else map_of xs k)"
  by (induction xs) (force simp: image_iff)+

lemma getitem_set_column:
  "getitem (set_column df col c) k = (if k = col then Inr c else getitem df k)"
proof (cases "col \<in> set (column_names df)")
  case True
  then show ?thesis
    by (simp add: getitem_def set_column_def column_names_def map_of_replace)
next
  case False
  then have "map_of (columns df) col = None"
    by (simp add: column_names_def map_of_eq_None_iff)
  with False show ?thesis
    by (simp add: getitem_def set_column_def map_add_def split: option.splits)
qed


lemma coerce_loop_coerces:
  assumes "coerce_loop ext mk cols df = Inr df'" and "getitem df col = Inr c"
  shows "(col \<in> set cols \<longrightarrow> (\<exists>c'. to_numeric ext c = Inr c' \<and> getitem df' col = Inr c'))
       \<and> (col \<notin> set cols \<longrightarrow> getitem df' col = Inr c)"
  using assms
proof (induction cols arbitrary: df c)
  case Nil
  then show ?case by simp
next
  case (Cons h rest)
  show ?case
  proof (cases "h \<in> set (column_names df)")
    case False
    with Cons.prems have loop: "coerce_loop ext mk rest df = Inr df'" by simp
    from False getitem_names [OF Cons.prems(2)] have "h \<noteq> col" by auto
    with Cons.IH [OF loop Cons.prems(2)] show ?thesis by simp
  next
    case True
    then obtain ch where ch: "getitem df h = Inr ch"
      using getitem_in_names by blast
    with True Cons.prems(1) obtain ch' where ch': "to_numeric ext ch = Inr ch'"
      and loop: "coerce_loop ext mk rest (set_column df h ch') = Inr df'"
      by (auto split: sum.splits py_exception.splits if_splits)
    show ?thesis
    proof (cases "h = col")
      case False
      then have "getitem (set_column df h ch') col = Inr c"
        using Cons.prems(2) by (simp add: getitem_set_column)
      from Cons.IH [OF loop this] False show ?thesis by simp
    next
      case same: True
      with ch Cons.prems(2) have c: "ch = c" by simp
      have g: "getitem (set_column df h ch') col = Inr ch'"
        using same by (simp add: getitem_set_column)
      note ih = Cons.IH [OF loop g]
      show ?thesis
      proof (cases "col \<in> set rest")
        case True
        with ih obtain c'' where "to_numeric ext ch' = Inr c''" "getitem df' col = Inr c''"
          by blast
        with to_numeric_idem [OF ch'] have "getitem df' col = Inr ch'" by simp
        with ch' c same show ?thesis by simp
      next
        case False
        with ih have "getitem df' col = Inr ch'" by simp
        with ch' c same show ?thesis by simp
      qed
    qed
  qed
qed


lemma validate_numeric_coerces:
  assumes "validate_numeric ext mk (Some nums) df = Inr df'" and "getitem df col = Inr c"
    and "col \<in> set nums"
  shows "\<exists>c'. to_numeric ext c = Inr c' \<and> getitem df' col = Inr c'"
proof -
  from assms(3) have "truthy_list (Some nums)" by (auto simp: truthy_list_def)
  with assms(1) have "coerce_loop ext mk nums df = Inr df'"
    by (simp add: validate_numeric_def)
  from coerce_loop_coerces [OF this assms(2)] assms(3) show ?thesis by blast
qed

lemma select_columns_map_of:
  "select_columns cs labels = Inr sel \<Longrightarrow> l \<in> set labels \<Longrightarrow> map_of sel l = map_of cs l"
  by (induction labels arbitrary: sel) (auto split: option.splits sum.splits)



lemma getitem_frame_getitem:
  "getitem_frame df labels = Inr X \<Longrightarrow> l \<in> set labels \<Longrightarrow> getitem X l = getitem df l"
  by (auto simp: getitem_frame_def getitem_def select_columns_map_of split: sum.splits)

lemma getitem_frame_index_len:
  "getitem_frame df labels = Inr X \<Longrightarrow> index_len X = index_len df"
  by (auto simp: getitem_frame_def split: sum.splits)

section \<open>Properties of the inference endpoints\<close>

lemma to_http_error_HTTP [simp]:
  "to_http_error prefix (Inl (HTTPException code d)) = Inl (HTTPException code d)"
  by (simp add: to_http_error_def)

lemma to_http_error_Exception [simp]:
  "to_http_error prefix (Inl (Exception (PyExc k msg))) =
     Inl (HTTPException 500 (Text (prefix @ msg)))"
  by (simp add: to_http_error_def)

lemma to_http_error_Inr_simp [simp]: "to_http_error prefix (Inr v) = Inr v"
  by (simp add: to_http_error_def)


lemma missing_empty_iff: "set fc - set names \<noteq> {} \<longleftrightarrow> \<not> set fc \<subseteq> set names"
  by auto



lemma batch_frame_Inr:
  assumes "batch_frame ext g p df = Inr df_out"
  shows "\<exists>fc df_sel df_checked preds probas df_pred.
           feature_columns g = Some fc
         \<and> set fc \<subseteq> set (column_names df)
         \<and> getitem_frame df fc = Inr df_sel
         \<and> validate_numeric ext only_numeric (numerical_columns g) df_sel = Inr df_checked
         \<and> predict ext p df_checked = Inr preds
         \<and> predict_proba ext p df_checked = Inr probas
         \<and> setitem df ''Prediction'' preds = Inr df_pred
         \<and> setitem df_pred ''Probability'' probas = Inr df_out"
  using assms
  by (auto simp: batch_frame_def Let_def missing_empty_iff
      split: option.splits sum.splits if_splits)


lemma predict_batch_Inr:
  "predict_batch ext g filename content = Inr resp \<longleftrightarrow>
     (\<exists>p df df_out. pipeline g = Some p \<and> endswith filename ''.csv''
        \<and> read_csv ext content = Inr df \<and> batch_frame ext g p df = Inr df_out
        \<and> resp = \<lparr>csv_content = to_csv ext df_out,
                   content_disposition = ''attachment; filename=predictions_'' @ filename\<rparr>)"
  by (auto simp: predict_batch_def predict_batch_body_def not_trained_def to_http_error_Inr
      split: option.splits sum.splits)

section \<open>The table returned by batch prediction\<close>

lemma set_column_index_len [simp]: "index_len (set_column df col c) = index_len df"
  by (simp add: set_column_def)

lemma set_column_new:
  "col \<notin> set (column_names df) \<Longrightarrow> columns (set_column df col c) = columns df @ [(col, c)]"
  by (simp add: set_column_def)

lemma replace_names:
  "map fst (map (\<lambda>(l, old). if l = col then (l, c) else (l, old)) xs) = map fst xs"
  by (induction xs) auto

lemma replace_others:
  "filter (\<lambda>x. fst x \<notin> S) (map (\<lambda>(l, old). if l = col then (l, c) else (l, old)) xs)
     = filter (\<lambda>x. fst x \<notin> S) xs" if "col \<in> S"
  using that by (induction xs) (auto split: if_splits)

lemma set_column_names:
  "column_names (set_column df col c) =
     column_names df @ filter (\<lambda>l. l \<notin> set (column_names df)) [col]"
  by (auto simp: set_column_def column_names_def split: prod.splits)

lemma set_column_others:
  "col \<in> S \<Longrightarrow>
     filter (\<lambda>x. fst x \<notin> S) (columns (set_column df col c)) = filter (\<lambda>x. fst x \<notin> S) (columns df)"
  by (simp add: set_column_def replace_others)

lemma setitem_Inr:
  "setitem df col c = Inr df' \<longleftrightarrow> length (cells c) = index_len df \<and> df' = set_column df col c"
  by (auto simp: setitem_def)

section \<open>Missing and extra columns\<close>

lemma map_of_filter_keys:
  "l \<in> S \<Longrightarrow> map_of (filter (\<lambda>kv. fst kv \<in> S) cs) l = map_of cs l"
  by (induction cs) auto

lemma select_columns_filter:
  "set labels \<subseteq> S \<Longrightarrow>
     select_columns (filter (\<lambda>kv. fst kv \<in> S) cs) labels = select_columns cs labels"
  by (induction labels) (auto simp: map_of_filter_keys split: option.splits sum.splits)

lemma missing_filter:
  "set fc - set (map fst (filter (\<lambda>kv. fst kv \<in> set fc) cs)) = set fc - set (map fst cs)"
  by auto

lemma from_record_filter:
  "columns (from_record (filter (\<lambda>kv. fst kv \<in> S) input_data))
     = filter (\<lambda>kv. fst kv \<in> S) (columns (from_record input_data))"
  by (induction input_data) (auto simp: from_record_def)

lemma from_record_index_len [simp]: "index_len (from_record input_data) = 1"
  by (simp add: from_record_def)

lemma from_record_names: "column_names (from_record input_data) = map fst input_data"
  by (induction input_data) (auto simp: from_record_def column_names_def)

lemma getitem_frame_filter:
  assumes "index_len df' = index_len df"
    and "columns df' = filter (\<lambda>kv. fst kv \<in> set fc) (columns df)"
  shows "getitem_frame df' fc = getitem_frame df fc"
  using assms by (simp add: getitem_frame_def select_columns_filter split: sum.splits)

lemma missing_names_filter:
  assumes "columns df' = filter (\<lambda>kv. fst kv \<in> set fc) (columns df)"
  shows "set fc - set (column_names df') = set fc - set (column_names df)"
  using assms unfolding column_names_def by (simp only: missing_filter)

lemma predict_single_body_extra:
  assumes "feature_columns g = Some fc"
  shows "predict_single_body ext g p (filter (\<lambda>kv. fst kv \<in> set fc) input_data)
       = predict_single_body ext g p input_data"
proof -
  let ?df = "from_record input_data"
  let ?df' = "from_record (filter (\<lambda>kv. fst kv \<in> set fc) input_data)"
  have cols: "columns ?df' = filter (\<lambda>kv. fst kv \<in> set fc) (columns ?df)"
    by (rule from_record_filter)
  have a: "getitem_frame ?df' fc = getitem_frame ?df fc"
    by (rule getitem_frame_filter) (simp_all add: cols)
  have b: "set fc - set (column_names ?df') = set fc - set (column_names ?df)"
    by (rule missing_names_filter) (rule cols)
  show ?thesis
    unfolding predict_single_body_def Let_def assms option.case a b ..
qed

lemma to_http_error_map_sum:
  "map_sum id f (to_http_error prefix r) = to_http_error prefix (map_sum id f r)"
  by (auto simp: to_http_error_def split: sum.splits raised.splits py_exception.splits)

lemma batch_frame_extra:
  assumes fc: "feature_columns g = Some fc"
    and len: "index_len df' = index_len df"
    and cols: "columns df' = filter (\<lambda>kv. fst kv \<in> set fc) (columns df)"
  shows "map_sum id (\<lambda>_. ()) (batch_frame ext g p df')
       = map_sum id (\<lambda>_. ()) (batch_frame ext g p df)"
proof -
  have a: "getitem_frame df' fc = getitem_frame df fc"
    using len cols by (rule getitem_frame_filter)
  have b: "set fc - set (column_names df') = set fc - set (column_names df)"
    using cols by (rule missing_names_filter)
  show ?thesis
    unfolding batch_frame_def Let_def fc option.case a b
    by (auto simp: setitem_def len split: sum.splits)
qed

lemma predict_batch_body_map_sum:
  "map_sum id (\<lambda>_. ()) (predict_batch_body ext g p filename content) =
     (case read_csv ext content of
        Inl e \<Rightarrow> Inl (Exception e)
      | Inr df \<Rightarrow> map_sum id (\<lambda>_. ()) (batch_frame ext g p df))"
  by (auto simp: predict_batch_body_def split: sum.splits)

text \<open>
  C1, a request without the feature columns. The empty JSON object is rejected with
  status 400 because the four feature columns are missing, and so is a CSV that lacks
  them.
\<close>

theorem missing_columns_rejected_counterexample:
  "predict_single demo_ext demo_trained [] =
     Inl (HTTPException 400
       (MissingRequiredColumns {''Geography'', ''Age'', ''Balance'', ''HasCrCard''}
          [''Geography'', ''Age'', ''Balance'', ''HasCrCard'']))"
  by code_simp

text \<open>
  C1. With a model loaded, a request that lacks a feature column of the schema is
  rejected with status 400, the detail naming the missing columns, on \<^verbatim>\<open>POST /predict\<close>
  and (for a CSV file that parses) on \<^verbatim>\<open>POST /predict-batch\<close>. Columns that are not in
  the schema are tolerated: \<^verbatim>\<open>POST /predict\<close> answers a record exactly as it answers the
  record without them, and \<^verbatim>\<open>POST /predict-batch\<close> succeeds, or fails with the same
  error, on a table exactly as on the table without them.
\<close>

theorem missing_rejected_extra_tolerated:
  assumes "pipeline g = Some p" and "feature_columns g = Some fc"
  shows "(\<not> set fc \<subseteq> fst ` set input_data \<longrightarrow>
            predict_single ext g input_data =
              Inl (HTTPException 400 (MissingRequiredColumns (set fc - fst ` set input_data) fc)))
       \<and> (endswith filename ''.csv'' \<and> read_csv ext content = Inr df
            \<and> \<not> set fc \<subseteq> set (column_names df) \<longrightarrow>
            predict_batch ext g filename content =
              Inl (HTTPException 400
                (CsvMissingRequiredColumns (set fc - set (column_names df)) fc)))
       \<and> predict_single ext g (filter (\<lambda>kv. fst kv \<in> set fc) input_data)
           = predict_single ext g input_data
       \<and> (read_csv ext content = Inr df \<and> read_csv ext content' = Inr df'
            \<and> index_len df' = index_len df
            \<and> columns df' = filter (\<lambda>kv. fst kv \<in> set fc) (columns df) \<longrightarrow>
            map_sum id (\<lambda>_. ()) (predict_batch ext g filename content')
              = map_sum id (\<lambda>_. ()) (predict_batch ext g filename content))"
proof -
  have a: "predict_single ext g input_data =
      Inl (HTTPException 400 (MissingRequiredColumns (set fc - fst ` set input_data) fc))"
    if "\<not> set fc \<subseteq> fst ` set input_data"
    using that
    by (simp add: predict_single_def predict_single_body_def assms from_record_names
        missing_empty_iff)
  have b: "predict_batch ext g filename content =
      Inl (HTTPException 400 (CsvMissingRequiredColumns (set fc - set (column_names df)) fc))"
    if "endswith filename ''.csv''" and "read_csv ext content = Inr df"
      and "\<not> set fc \<subseteq> set (column_names df)"
    using that
    by (simp add: predict_batch_def predict_batch_body_def batch_frame_def assms
        missing_empty_iff)
  have c: "predict_single ext g (filter (\<lambda>kv. fst kv \<in> set fc) input_data)
      = predict_single ext g input_data"
    by (simp add: predict_single_def assms(1) predict_single_body_extra [OF assms(2)])
  have d: "map_sum id (\<lambda>_. ()) (predict_batch ext g filename content')
      = map_sum id (\<lambda>_. ()) (predict_batch ext g filename content)"
    if "read_csv ext content = Inr df" and "read_csv ext content' = Inr df'"
      and "index_len df' = index_len df"
      and "columns df' = filter (\<lambda>kv. fst kv \<in> set fc) (columns df)"
    using that batch_frame_extra [OF assms(2) that(3,4), of ext p]
    by (simp add: predict_batch_def assms(1) to_http_error_map_sum predict_batch_body_map_sum)
  show ?thesis
    using a b c d by blast
qed

theorem missing_rejected_extra_tolerated_witness:
  "pipeline demo_trained = Some demo_pipeline
   \<and> feature_columns demo_trained = Some [''Geography'', ''Age'', ''Balance'', ''HasCrCard'']
   \<and> predict_single demo_ext demo_trained [(''Age'', IntC 35)] =
       Inl (HTTPException 400
         (MissingRequiredColumns
            (set [''Geography'', ''Age'', ''Balance'', ''HasCrCard'']
               - fst ` set [(''Age'', IntC 35 :: int cell)])
            [''Geography'', ''Age'', ''Balance'', ''HasCrCard'']))
   \<and> predict_single demo_ext demo_trained
         (filter (\<lambda>kv. fst kv \<in> set [''Geography'', ''Age'', ''Balance'', ''HasCrCard''])
            demo_record)
       = predict_single demo_ext demo_trained demo_record
   \<and> predict_single demo_ext demo_trained demo_record = Inr \<lparr>prediction = 1, probability = 1\<rparr>
   \<and> map_sum id (\<lambda>_. ())
         (predict_batch demo_ext demo_trained ''customers.csv'' ''batch without extras'')
       = map_sum id (\<lambda>_. ()) (predict_batch demo_ext demo_trained ''customers.csv'' ''batch'')
   \<and> map_sum id (\<lambda>_. ()) (predict_batch demo_ext demo_trained ''customers.csv'' ''batch'')
       = Inr ()"
proof -
  have h1: "pipeline demo_trained = Some demo_pipeline"
    and h2: "feature_columns demo_trained = Some [''Geography'', ''Age'', ''Balance'', ''HasCrCard'']"
    by (simp_all add: demo_trained_def)
  note p = missing_rejected_extra_tolerated [OF h1 h2]
  have miss: "\<not> set [''Geography'', ''Age'', ''Balance'', ''HasCrCard'']
      \<subseteq> fst ` set [(''Age'', IntC 35 :: int cell)]"
    by simp
  have a: "predict_single demo_ext demo_trained [(''Age'', IntC 35)] =
       Inl (HTTPException 400
         (MissingRequiredColumns
            (set [''Geography'', ''Age'', ''Balance'', ''HasCrCard'']
               - fst ` set [(''Age'', IntC 35 :: int cell)])
            [''Geography'', ''Age'', ''Balance'', ''HasCrCard'']))"
    by (rule p [of "[(''Age'', IntC 35)]" demo_ext, THEN conjunct1, THEN mp, OF miss])
  have c: "predict_single demo_ext demo_trained
         (filter (\<lambda>kv. fst kv \<in> set [''Geography'', ''Age'', ''Balance'', ''HasCrCard''])
            demo_record)
       = predict_single demo_ext demo_trained demo_record"
    by (rule p [THEN conjunct2, THEN conjunct2, THEN conjunct1])
  have ok: "predict_single demo_ext demo_trained demo_record
      = Inr \<lparr>prediction = 1, probability = 1\<rparr>"
    by code_simp
  have r1: "read_csv demo_ext ''batch'' = Inr demo_batch"
    and r2: "read_csv demo_ext ''batch without extras''
      = Inr (demo_batch\<lparr>columns := butlast (columns demo_batch)\<rparr>)"
    by (simp_all add: demo_ext_def demo_read_csv_def)
  have len: "index_len (demo_batch\<lparr>columns := butlast (columns demo_batch)\<rparr>) = index_len demo_batch"
    by simp
  have cols: "columns (demo_batch\<lparr>columns := butlast (columns demo_batch)\<rparr>)
      = filter (\<lambda>kv. fst kv \<in> set [''Geography'', ''Age'', ''Balance'', ''HasCrCard''])
          (columns demo_batch)"
    by (simp add: demo_batch_def)
  have d: "map_sum id (\<lambda>_. ())
         (predict_batch demo_ext demo_trained ''customers.csv'' ''batch without extras'')
       = map_sum id (\<lambda>_. ()) (predict_batch demo_ext demo_trained ''customers.csv'' ''batch'')"
    using p [THEN conjunct2, THEN conjunct2, THEN conjunct2, rule_format, OF conjI [OF r1 conjI [OF r2 conjI [OF len cols]]]]
    .
  have e: "map_sum id (\<lambda>_. ()) (predict_batch demo_ext demo_trained ''customers.csv'' ''batch'')
       = Inr ()"
    by code_simp
  show ?thesis
    by (intro conjI h1 h2 a c ok d e)
qed

section \<open>Exceptions and HTTP errors\<close>



section \<open>The numeric conversion, value by value\<close>

lemma is_number_number_cell [simp]: "is_number (number_cell x)"
  by (cases x) simp_all


lemma coerce_cell_Inr:
  "coerce_cell ext v = Inr w \<Longrightarrow> converts_to ext v w"
  by (cases v) (auto split: option.splits if_splits)


lemma converts_to_self:
  "is_number v \<or> v = NullC \<Longrightarrow> converts_to ext v v"
  by (cases v) auto

lemma coerce_cells_Inr:
  "coerce_cells ext vs = Inr ws \<Longrightarrow> list_all2 (converts_to ext) vs ws"
  by (induction vs arbitrary: ws) (auto split: sum.splits dest: coerce_cell_Inr)




lemma to_numeric_Inr:
  assumes "to_numeric ext c = Inr c'"
    and "is_numeric_dtype (dtype c) \<longrightarrow> list_all (\<lambda>v. is_number v \<or> v = NullC) (cells c)"
  shows "list_all2 (converts_to ext) (cells c) (cells c')"
proof (cases "is_numeric_dtype (dtype c)")
  case True
  with assms(1) have "c' = c" by (simp add: to_numeric_def)
  moreover from True assms(2) have "list_all2 (converts_to ext) (cells c) (cells c)"
    by (auto simp: list_all_iff list_all2_same intro: converts_to_self)
  ultimately show ?thesis by simp
next
  case False
  with assms(1) show ?thesis
    by (auto simp: to_numeric_def split: sum.splits dest: coerce_cells_Inr)
qed













lemma validate_numeric_converts:
  assumes "validate_numeric ext mk nums df = Inr df'" and "getitem df col = Inr c"
    and "col \<in> set (case nums of None \<Rightarrow> [] | Some ns \<Rightarrow> ns)"
    and "is_numeric_dtype (dtype c) \<longrightarrow> list_all (\<lambda>v. is_number v \<or> v = NullC) (cells c)"
  shows "\<exists>c'. getitem df' col = Inr c' \<and> list_all2 (converts_to ext) (cells c) (cells c')"
proof -
  from assms(3) obtain ns where ns: "nums = Some ns" and col: "col \<in> set ns"
    by (cases nums) auto
  from validate_numeric_coerces [OF assms(1) [unfolded ns] assms(2) col] obtain c' where
    conv: "to_numeric ext c = Inr c'" and c': "getitem df' col = Inr c'"
    by blast
  from to_numeric_Inr [OF conv assms(4)] c' show ?thesis by blast
qed






section \<open>What training computes and saves\<close>

lemma create_pipeline_Inr:
  "create_pipeline cats nums = Inr pl \<Longrightarrow>
     pl = Pipeline ((if cats \<noteq> [] then [(''cat'', OneHotEncoder, cats)] else [])
                    @ (if nums \<noteq> [] then [(''num'', StandardScaler, nums)] else [])) None"
  by (auto simp: create_pipeline_def Let_def split: if_splits)

lemma train_fit_steps:
  assumes "train_fit ext td g = (Inr r, g6)"
  shows "\<exists>X_train X_test y_train y_test pre m.
           train_test_split ext (td_X td) (td_y td) = Inr (X_train, X_test, y_train, y_test)
         \<and> pre = (if td_categorical td \<noteq> []
                   then [(''cat'', OneHotEncoder, td_categorical td)] else [])
                 @ (if td_numerical td \<noteq> []
                    then [(''num'', StandardScaler, td_numerical td)] else [])
         \<and> fit ext pre X_train y_train = Inr m
         \<and> predict ext (Pipeline pre (Some m)) X_test = Inr (fit_y_pred r)
         \<and> predict_proba ext (Pipeline pre (Some m)) X_test = Inr (fit_y_proba r)
         \<and> fit_y_test r = y_test
         \<and> fit_pipeline r = Pipeline pre (Some m)
         \<and> g6 = g\<lparr>pipeline := Some (Pipeline pre (Some m))\<rparr>"
  using assms
  by (auto simp: train_fit_def Let_def split: sum.splits pipeline_obj.splits
      dest!: create_pipeline_Inr)

lemma cm_at_Inr: "cm_at cm i j = Inr n \<longleftrightarrow> i < length cm \<and> j < length (cm ! i) \<and> n = cm ! i ! j"
  by (auto simp: cm_at_def)

lemma confusion_counts_cells:
  assumes "confusion_counts cm = Inr counts"
  shows "1 < length cm \<and> 1 < length (cm ! 0) \<and> 1 < length (cm ! 1)
       \<and> counts = [(''true_negatives'', cm ! 0 ! 0), (''false_positives'', cm ! 0 ! 1),
                    (''false_negatives'', cm ! 1 ! 0), (''true_positives'', cm ! 1 ! 1)]"
  using assms by (auto simp: confusion_counts_def cm_at_Inr split: sum.splits)

lemma compute_metrics_steps:
  assumes "compute_metrics ext r = Inr ms"
  shows "\<exists>acc prec rec f1 auc cm.
           accuracy_score ext (fit_y_test r) (fit_y_pred r) = Inr acc
         \<and> precision_score ext (fit_y_test r) (fit_y_pred r) = Inr prec
         \<and> recall_score ext (fit_y_test r) (fit_y_pred r) = Inr rec
         \<and> f1_score ext (fit_y_test r) (fit_y_pred r) = Inr f1
         \<and> roc_auc_score ext (fit_y_test r) (fit_y_proba r) = Inr auc
         \<and> confusion_matrix ext (fit_y_test r) (fit_y_pred r) = Inr cm
         \<and> 1 < length cm \<and> 1 < length (cm ! 0) \<and> 1 < length (cm ! 1)
         \<and> ms = [(''accuracy'', Score acc), (''precision'', Score prec), (''recall'', Score rec),
                 (''f1_score'', Score f1), (''roc_auc'', Score auc),
                 (''confusion_matrix'',
                  Counts [(''true_negatives'', cm ! 0 ! 0), (''false_positives'', cm ! 0 ! 1),
                          (''false_negatives'', cm ! 1 ! 0), (''true_positives'', cm ! 1 ! 1)])]"
proof -
  from compute_metrics_Inr [OF assms] obtain cm counts where
    cm: "confusion_matrix ext (fit_y_test r) (fit_y_pred r) = Inr cm"
    and counts: "confusion_counts cm = Inr counts"
    by blast
  note cells = confusion_counts_cells [OF counts]
  from assms cm counts cells show ?thesis
    by (auto simp: compute_metrics_def split: sum.splits)
qed

lemma collect_categorical_values_each:
  "collect_categorical_values ext df cats = Inr cv \<Longrightarrow>
     list_all2 (\<lambda>c kv. \<exists>col. getitem df c = Inr col
                   \<and> kv = (c, sort (map (str_of ext) (unique (dropna (cells col)))))) cats cv"
  by (induction cats arbitrary: cv) (auto split: sum.splits)

lemma train_load_target:
  assumes "train_load ext target g files = (Inr td, g4)"
    and "data_file files = Some content" and "read_csv ext content = Inr df"
  shows "getitem df (td_target td) = Inr (td_y td)"
  using assms
  by (auto simp: train_load_def Let_def split: sum.splits prod.splits)

text \<open>
  C5. When \<^verbatim>\<open>POST /train\<close> succeeds, the data file was read into a table; its feature
  columns and target column were split by \<^verbatim>\<open>train_test_split\<close>; the pipeline built for
  the detected categorical and numerical columns was fitted on the training part; and the
  metrics of the response are \<^verbatim>\<open>accuracy\<close>, \<^verbatim>\<open>precision\<close>, \<^verbatim>\<open>recall\<close>,
  \<^verbatim>\<open>f1_score\<close> and \<^verbatim>\<open>roc_auc\<close> as the metric functions compute them from the test
  labels and the fitted pipeline's predictions on the test part, and
  \<^verbatim>\<open>confusion_matrix\<close> with the four cells of the matrix computed from the same. Writing
  the model file did not fail, and the file \<^verbatim>\<open>model/model.joblib\<close> holds that fitted
  pipeline with the feature columns, target column, categorical and numerical columns the
  response reports and the sorted distinct values of every categorical column; the
  globals hold the same.
\<close>

theorem train_success_metrics_and_saved_model:
  assumes "train_model ext target (g, files) = (Inr resp, (g', files'))"
  shows "\<exists>content df t fc X y nums cats cv X_train X_test y_train y_test pre m
            y_pred y_proba acc prec rec f1 auc cm.
           data_file files = Some content \<and> read_csv ext content = Inr df
         \<and> detect_target_column df target = Inr t
         \<and> fc = filter (\<lambda>c. c \<noteq> t \<and> \<not> endswith (lower c) ''id'') (column_names df)
         \<and> getitem_frame df fc = Inr X \<and> getitem df t = Inr y
         \<and> detect_column_types X = (nums, cats)
         \<and> list_all2 (\<lambda>c kv. \<exists>col. getitem df c = Inr col
                \<and> kv = (c, sort (map (str_of ext) (unique (dropna (cells col)))))) cats cv
         \<and> train_test_split ext X y = Inr (X_train, X_test, y_train, y_test)
         \<and> pre = (if cats \<noteq> [] then [(''cat'', OneHotEncoder, cats)] else [])
                 @ (if nums \<noteq> [] then [(''num'', StandardScaler, nums)] else [])
         \<and> fit ext pre X_train y_train = Inr m
         \<and> predict ext (Pipeline pre (Some m)) X_test = Inr y_pred
         \<and> predict_proba ext (Pipeline pre (Some m)) X_test = Inr y_proba
         \<and> accuracy_score ext y_test y_pred = Inr acc
         \<and> precision_score ext y_test y_pred = Inr prec
         \<and> recall_score ext y_test y_pred = Inr rec
         \<and> f1_score ext y_test y_pred = Inr f1
         \<and> roc_auc_score ext y_test y_proba = Inr auc
         \<and> confusion_matrix ext y_test y_pred = Inr cm
         \<and> 1 < length cm \<and> 1 < length (cm ! 0) \<and> 1 < length (cm ! 1)
         \<and> resp =
             \<lparr>resp_message = ''Model trained successfully'',
              resp_metrics =
                [(''accuracy'', Score acc), (''precision'', Score prec), (''recall'', Score rec),
                 (''f1_score'', Score f1), (''roc_auc'', Score auc),
                 (''confusion_matrix'',
                  Counts [(''true_negatives'', cm ! 0 ! 0), (''false_positives'', cm ! 0 ! 1),
                          (''false_negatives'', cm ! 1 ! 0), (''true_positives'', cm ! 1 ! 1)])],
              resp_target_column = t,
              resp_feature_columns = fc,
              resp_categorical_columns = cats,
              resp_numerical_columns = nums\<rparr>
         \<and> write_error files = None
         \<and> files' =
             files\<lparr>model_file := Some (Dumped
               \<lparr>saved_pipeline = Some (Pipeline pre (Some m)),
                saved_feature_columns = Some fc,
                saved_target_column = Some t,
                saved_categorical_columns = Some cats,
                saved_numerical_columns = Some nums,
                saved_categorical_values = Some cv\<rparr>)\<rparr>
         \<and> g' =
             \<lparr>model = Some (Pipeline pre (Some m)),
              pipeline = Some (Pipeline pre (Some m)),
              feature_columns = Some fc,
              target_column = Some t,
              categorical_columns = Some cats,
              numerical_columns = Some nums,
              categorical_values = Some cv\<rparr>"
proof -
  from assms have "train_body ext target (g, files) = (Inr resp, (g', files'))"
    by (simp add: train_model_Inr)
  from train_body_Inr [OF this] obtain td g4 r g6 ms where
    load: "train_load ext target g files = (Inr td, g4)"
    and fit: "train_fit ext td g4 = (Inr r, g6)"
    and ms: "compute_metrics ext r = Inr ms"
    and wr: "write_error files = None"
    and resp: "resp = \<lparr>resp_message = ''Model trained successfully'',
                resp_metrics = ms,
                resp_target_column = td_target td,
                resp_feature_columns = td_features td,
                resp_categorical_columns = td_categorical td,
                resp_numerical_columns = td_numerical td\<rparr>"
    and g': "g' = g6\<lparr>model := pipeline g6\<rparr>"
    and files': "files' = files\<lparr>model_file := Some (Dumped (dump_model g6))\<rparr>"
    by blast
  from train_load_Inr [OF load] obtain content df cv where
    content: "data_file files = Some content" and df: "read_csv ext content = Inr df"
    and t: "detect_target_column df target = Inr (td_target td)"
    and feats: "td_features td = feature_column_list df (td_target td)"
    and X: "getitem_frame df (td_features td) = Inr (td_X td)"
    and types: "detect_column_types (td_X td) = (td_numerical td, td_categorical td)"
    and cv: "collect_categorical_values ext df (td_categorical td) = Inr cv"
    and g4: "g4 = g\<lparr>target_column := Some (td_target td),
                   feature_columns := Some (td_features td),
                   numerical_columns := Some (td_numerical td),
                   categorical_columns := Some (td_categorical td),
                   categorical_values := Some cv\<rparr>"
    by blast
  have y: "getitem df (td_target td) = Inr (td_y td)"
    using load content df by (rule train_load_target)
  let ?pre = "(if td_categorical td \<noteq> []
                   then [(''cat'', OneHotEncoder, td_categorical td)] else [])
                 @ (if td_numerical td \<noteq> []
                    then [(''num'', StandardScaler, td_numerical td)] else [])"
  from train_fit_steps [OF fit] obtain X_train X_test y_train y_test m where
    split: "train_test_split ext (td_X td) (td_y td) = Inr (X_train, X_test, y_train, y_test)"
    and m: "fit ext ?pre X_train y_train = Inr m"
    and pred: "predict ext (Pipeline ?pre (Some m)) X_test = Inr (fit_y_pred r)"
    and proba: "predict_proba ext (Pipeline ?pre (Some m)) X_test = Inr (fit_y_proba r)"
    and y_test: "fit_y_test r = y_test"
    and g6: "g6 = g4\<lparr>pipeline := Some (Pipeline ?pre (Some m))\<rparr>"
    by blast
  from compute_metrics_steps [OF ms] y_test obtain acc prec rec f1 auc cm where
    acc: "accuracy_score ext y_test (fit_y_pred r) = Inr acc"
    and prec: "precision_score ext y_test (fit_y_pred r) = Inr prec"
    and rec: "recall_score ext y_test (fit_y_pred r) = Inr rec"
    and f1: "f1_score ext y_test (fit_y_pred r) = Inr f1"
    and auc: "roc_auc_score ext y_test (fit_y_proba r) = Inr auc"
    and cm: "confusion_matrix ext y_test (fit_y_pred r) = Inr cm"
    and dims: "1 < length cm" "1 < length (cm ! 0)" "1 < length (cm ! 1)"
    and ms_eq: "ms = [(''accuracy'', Score acc), (''precision'', Score prec), (''recall'', Score rec),
                 (''f1_score'', Score f1), (''roc_auc'', Score auc),
                 (''confusion_matrix'',
                  Counts [(''true_negatives'', cm ! 0 ! 0), (''false_positives'', cm ! 0 ! 1),
                          (''false_negatives'', cm ! 1 ! 0), (''true_positives'', cm ! 1 ! 1)])]"
    by auto
  have fc: "td_features td
      = filter (\<lambda>c. c \<noteq> td_target td \<and> \<not> endswith (lower c) ''id'') (column_names df)"
    by (simp add: feats feature_column_list_def)
  have files_eq: "files' =
             files\<lparr>model_file := Some (Dumped
               \<lparr>saved_pipeline = Some (Pipeline ?pre (Some m)),
                saved_feature_columns = Some (td_features td),
                saved_target_column = Some (td_target td),
                saved_categorical_columns = Some (td_categorical td),
                saved_numerical_columns = Some (td_numerical td),
                saved_categorical_values = Some cv\<rparr>)\<rparr>"
    by (simp add: files' g6 g4 dump_model_def)
  have g_eq: "g' =
             \<lparr>model = Some (Pipeline ?pre (Some m)),
              pipeline = Some (Pipeline ?pre (Some m)),
              feature_columns = Some (td_features td),
              target_column = Some (td_target td),
              categorical_columns = Some (td_categorical td),
              numerical_columns = Some (td_numerical td),
              categorical_values = Some cv\<rparr>"
    by (cases g) (simp add: g' g6 g4)
  have resp_eq: "resp =
             \<lparr>resp_message = ''Model trained successfully'',
              resp_metrics =
                [(''accuracy'', Score acc), (''precision'', Score prec), (''recall'', Score rec),
                 (''f1_score'', Score f1), (''roc_auc'', Score auc),
                 (''confusion_matrix'',
                  Counts [(''true_negatives'', cm ! 0 ! 0), (''false_positives'', cm ! 0 ! 1),
                          (''false_negatives'', cm ! 1 ! 0), (''true_positives'', cm ! 1 ! 1)])],
              resp_target_column = td_target td,
              resp_feature_columns = td_features td,
              resp_categorical_columns = td_categorical td,
              resp_numerical_columns = td_numerical td\<rparr>"
    by (simp add: resp ms_eq)
  note each = collect_categorical_values_each [OF cv]
  show ?thesis
    apply (rule exI [of _ content], rule exI [of _ df], rule exI [of _ "td_target td"])
    apply (rule exI [of _ "td_features td"], rule exI [of _ "td_X td"], rule exI [of _ "td_y td"])
    apply (rule exI [of _ "td_numerical td"], rule exI [of _ "td_categorical td"], rule exI [of _ cv])
    apply (rule exI [of _ X_train], rule exI [of _ X_test], rule exI [of _ y_train])
    apply (rule exI [of _ y_test], rule exI [of _ ?pre], rule exI [of _ m])
    apply (rule exI [of _ "fit_y_pred r"], rule exI [of _ "fit_y_proba r"], rule exI [of _ acc])
    apply (rule exI [of _ prec], rule exI [of _ rec], rule exI [of _ f1])
    apply (rule exI [of _ auc], rule exI [of _ cm])
    apply (intro conjI content df t fc X y types each split refl m pred proba acc prec rec f1
        auc cm dims resp_eq wr files_eq g_eq)
    done
qed

theorem train_success_metrics_and_saved_model_witness:
  "train_model demo_ext None (initial_globals, demo_files) =
     (Inr demo_response, (demo_trained, demo_saved))
   \<and> (\<exists>content df. data_file demo_files = Some content \<and> read_csv demo_ext content = Inr df)
   \<and> write_error demo_files = None
   \<and> model_file demo_saved = Some (Dumped (dump_model demo_trained))"
proof -
  have h: "train_model demo_ext None (initial_globals, demo_files) =
     (Inr demo_response, (demo_trained, demo_saved))"
    by code_simp
  from train_success_metrics_and_saved_model [OF h]
  have a: "\<exists>content df. data_file demo_files = Some content \<and> read_csv demo_ext content = Inr df"
    and b: "write_error demo_files = None"
    by blast+
  have c: "model_file demo_saved = Some (Dumped (dump_model demo_trained))"
    by (simp add: demo_saved_def)
  show ?thesis
    by (intro conjI h a b c)
qed

section \<open>The outputs of batch prediction\<close>

lemma set_column_existing_names:
  "col \<in> set (column_names df) \<Longrightarrow> column_names (set_column df col c) = column_names df"
  by (simp add: set_column_names)

lemma coerce_loop_shape:
  "coerce_loop ext mk cols df = Inr df' \<Longrightarrow>
     column_names df' = column_names df \<and> index_len df' = index_len df"
proof (induction cols arbitrary: df)
  case Nil
  then show ?case by simp
next
  case (Cons h rest)
  show ?case
  proof (cases "h \<in> set (column_names df)")
    case False
    with Cons show ?thesis by simp
  next
    case True
    then obtain ch where ch: "getitem df h = Inr ch"
      using getitem_in_names by blast
    with True Cons.prems obtain ch' where
      loop: "coerce_loop ext mk rest (set_column df h ch') = Inr df'"
      by (auto split: sum.splits py_exception.splits if_splits)
    from Cons.IH [OF loop] True show ?thesis
      by (simp add: set_column_existing_names)
  qed
qed

lemma validate_numeric_shape:
  "validate_numeric ext mk nums df = Inr df' \<Longrightarrow>
     column_names df' = column_names df \<and> index_len df' = index_len df"
  by (auto simp: validate_numeric_def split: if_splits option.splits dest: coerce_loop_shape)

lemma validate_numeric_other_columns:
  assumes "validate_numeric ext mk nums df = Inr df'"
    and "col \<notin> set (case nums of None \<Rightarrow> [] | Some ns \<Rightarrow> ns)"
  shows "getitem df' col = getitem df col"
proof (cases "truthy_list nums")
  case False
  with assms(1) show ?thesis by (simp add: validate_numeric_def)
next
  case True
  then obtain ns where ns: "nums = Some ns" by (cases nums) (auto simp: truthy_list_def)
  with assms(1) True have loop: "coerce_loop ext mk ns df = Inr df'"
    by (simp add: validate_numeric_def)
  show ?thesis
  proof (cases "getitem df col")
    case (Inr c)
    from coerce_loop_coerces [OF loop Inr] assms(2) ns Inr show ?thesis by simp
  next
    case (Inl e)
    then have "col \<notin> set (column_names df)"
      using getitem_in_names [of col df] by auto
    with coerce_loop_shape [OF loop] have "col \<notin> set (column_names df')" by simp
    then have "map_of (columns df') col = None" and "map_of (columns df) col = None"
      using \<open>col \<notin> set (column_names df)\<close>
      by (simp_all add: column_names_def map_of_eq_None_iff)
    then show ?thesis by (simp add: getitem_def)
  qed
qed

text \<open>
  C10, an upload that already has a \<^verbatim>\<open>Prediction\<close> column. The request succeeds; the
  uploaded column, the texts "stay" and "leave", is not returned: the model's output
  takes its place as first column, and one column only is appended.
\<close>

theorem batch_overwrites_prediction_counterexample:
  "read_csv demo_ext ''batch with a Prediction column'' = Inr demo_batch_labelled
   \<and> getitem demo_batch_labelled ''Prediction''
       = Inr \<lparr>dtype = ObjectDtype, cells = [StrC ''stay'', StrC ''leave'']\<rparr>
   \<and> batch_frame demo_ext demo_trained demo_pipeline demo_batch_labelled =
       Inr \<lparr>index_len = 2,
            columns =
              [(''Prediction'', \<lparr>dtype = IntDtype, cells = [IntC 1, IntC 1]\<rparr>),
               (''Geography'', \<lparr>dtype = ObjectDtype, cells = [StrC ''France'', StrC ''Spain'']\<rparr>),
               (''Age'', \<lparr>dtype = IntDtype, cells = [IntC 35, IntC 40]\<rparr>),
               (''Balance'', \<lparr>dtype = FloatDtype, cells = [FloatC 100000, FloatC 150000]\<rparr>),
               (''HasCrCard'', \<lparr>dtype = IntDtype, cells = [IntC 1, IntC 0]\<rparr>),
               (''Probability'', \<lparr>dtype = FloatDtype, cells = [FloatC 1, FloatC 1]\<rparr>)]\<rparr>
   \<and> predict_batch demo_ext demo_trained ''customers.csv'' ''batch with a Prediction column'' =
       Inr \<lparr>csv_content = ''Prediction,Geography,Age,Balance,HasCrCard,Probability,'',
            content_disposition = ''attachment; filename=predictions_customers.csv''\<rparr>"
  by code_simp

text \<open>
  C10. When \<^verbatim>\<open>POST /predict-batch\<close> succeeds, the CSV returned is that of a table with
  as many rows as the upload. Its \<^verbatim>\<open>Prediction\<close> column is what \<^verbatim>\<open>predict\<close>, and its
  \<^verbatim>\<open>Probability\<close> column what \<^verbatim>\<open>predict_proba\<close>, of the loaded pipeline returned for
  the validated feature columns of the upload, one value per row; validated means that
  a feature column the schema does not mark numerical is the uploaded one, and a
  numerical one is the uploaded one converted value by value. Every uploaded column
  with another name is returned unchanged and in the uploaded order, extra columns
  included; the column labels are the uploaded ones followed by those of
  \<^verbatim>\<open>Prediction\<close> and \<^verbatim>\<open>Probability\<close> that the upload did not have. If the upload has
  neither name, the table is the uploaded columns followed by exactly the two new ones.
\<close>

theorem batch_output_table:
  assumes "predict_batch ext g filename content = Inr resp"
  shows "\<exists>p fc df df_sel df_checked df_out preds probas.
           pipeline g = Some p \<and> feature_columns g = Some fc
         \<and> read_csv ext content = Inr df
         \<and> getitem_frame df fc = Inr df_sel
         \<and> validate_numeric ext only_numeric (numerical_columns g) df_sel = Inr df_checked
         \<and> column_names df_checked = fc \<and> index_len df_checked = index_len df
         \<and> (\<forall>col. col \<in> set fc
                \<and> col \<notin> set (case numerical_columns g of None \<Rightarrow> [] | Some ns \<Rightarrow> ns)
                \<longrightarrow> getitem df_checked col = getitem df col)
         \<and> (\<forall>col c. col \<in> set fc
                \<and> col \<in> set (case numerical_columns g of None \<Rightarrow> [] | Some ns \<Rightarrow> ns)
                \<and> getitem df col = Inr c
                \<and> (is_numeric_dtype (dtype c) \<longrightarrow>
                      list_all (\<lambda>v. is_number v \<or> v = NullC) (cells c))
                \<longrightarrow> (\<exists>c'. getitem df_checked col = Inr c'
                       \<and> list_all2 (converts_to ext) (cells c) (cells c')))
         \<and> predict ext p df_checked = Inr preds
         \<and> predict_proba ext p df_checked = Inr probas
         \<and> resp = \<lparr>csv_content = to_csv ext df_out,
                    content_disposition = ''attachment; filename=predictions_'' @ filename\<rparr>
         \<and> index_len df_out = index_len df
         \<and> length (cells preds) = index_len df \<and> length (cells probas) = index_len df
         \<and> getitem df_out ''Prediction'' = Inr preds
         \<and> getitem df_out ''Probability'' = Inr probas
         \<and> filter (\<lambda>x. fst x \<notin> {''Prediction'', ''Probability''}) (columns df_out)
             = filter (\<lambda>x. fst x \<notin> {''Prediction'', ''Probability''}) (columns df)
         \<and> column_names df_out =
             column_names df
             @ filter (\<lambda>l. l \<notin> set (column_names df)) [''Prediction'', ''Probability'']
         \<and> (''Prediction'' \<notin> set (column_names df) \<and> ''Probability'' \<notin> set (column_names df)
              \<longrightarrow> columns df_out
                    = columns df @ [(''Prediction'', preds), (''Probability'', probas)])"
proof -
  from assms obtain p df df_out where
    p: "pipeline g = Some p"
    and df: "read_csv ext content = Inr df"
    and out: "batch_frame ext g p df = Inr df_out"
    and resp: "resp = \<lparr>csv_content = to_csv ext df_out,
                    content_disposition = ''attachment; filename=predictions_'' @ filename\<rparr>"
    by (auto simp: predict_batch_Inr)
  from batch_frame_Inr [OF out] obtain fc df_sel df_checked preds probas df_pred where
    fc: "feature_columns g = Some fc"
    and sel: "getitem_frame df fc = Inr df_sel"
    and val: "validate_numeric ext only_numeric (numerical_columns g) df_sel = Inr df_checked"
    and pr: "predict ext p df_checked = Inr preds"
    and pp: "predict_proba ext p df_checked = Inr probas"
    and s1: "setitem df ''Prediction'' preds = Inr df_pred"
    and s2: "setitem df_pred ''Probability'' probas = Inr df_out"
    by blast
  have shape: "column_names df_checked = fc" "index_len df_checked = index_len df"
    using validate_numeric_shape [OF val] getitem_frame_names [OF sel]
      getitem_frame_index_len [OF sel]
    by simp_all
  have same: "\<forall>col. col \<in> set fc
                \<and> col \<notin> set (case numerical_columns g of None \<Rightarrow> [] | Some ns \<Rightarrow> ns)
                \<longrightarrow> getitem df_checked col = getitem df col"
    using validate_numeric_other_columns [OF val] getitem_frame_getitem [OF sel] by simp
  have conv: "\<forall>col c. col \<in> set fc
                \<and> col \<in> set (case numerical_columns g of None \<Rightarrow> [] | Some ns \<Rightarrow> ns)
                \<and> getitem df col = Inr c
                \<and> (is_numeric_dtype (dtype c) \<longrightarrow>
                      list_all (\<lambda>v. is_number v \<or> v = NullC) (cells c))
                \<longrightarrow> (\<exists>c'. getitem df_checked col = Inr c'
                       \<and> list_all2 (converts_to ext) (cells c) (cells c'))"
  proof (intro allI impI)
    fix col c
    assume a: "col \<in> set fc
                \<and> col \<in> set (case numerical_columns g of None \<Rightarrow> [] | Some ns \<Rightarrow> ns)
                \<and> getitem df col = Inr c
                \<and> (is_numeric_dtype (dtype c) \<longrightarrow>
                      list_all (\<lambda>v. is_number v \<or> v = NullC) (cells c))"
    then have "getitem df_sel col = Inr c"
      using getitem_frame_getitem [OF sel, of col] by simp
    from validate_numeric_converts [OF val this] a
    show "\<exists>c'. getitem df_checked col = Inr c'
        \<and> list_all2 (converts_to ext) (cells c) (cells c')"
      by simp
  qed
  from s1 have l1: "length (cells preds) = index_len df"
    and d1: "df_pred = set_column df ''Prediction'' preds"
    by (simp_all add: setitem_Inr)
  from s2 d1 have l2: "length (cells probas) = index_len df"
    and d2: "df_out = set_column (set_column df ''Prediction'' preds) ''Probability'' probas"
    by (simp_all add: setitem_Inr)
  have len: "index_len df_out = index_len df"
    by (simp add: d2)
  have g1: "getitem df_out ''Prediction'' = Inr preds"
    and g2: "getitem df_out ''Probability'' = Inr probas"
    by (simp_all add: d2 getitem_set_column)
  have others: "filter (\<lambda>x. fst x \<notin> {''Prediction'', ''Probability''}) (columns df_out)
             = filter (\<lambda>x. fst x \<notin> {''Prediction'', ''Probability''}) (columns df)"
    unfolding d2
    by (subst set_column_others, simp, subst set_column_others, simp, rule refl)
  have names: "column_names df_out =
             column_names df
             @ filter (\<lambda>l. l \<notin> set (column_names df)) [''Prediction'', ''Probability'']"
    by (simp add: d2 set_column_names)
  have fresh: "''Prediction'' \<notin> set (column_names df) \<and> ''Probability'' \<notin> set (column_names df)
      \<longrightarrow> columns df_out = columns df @ [(''Prediction'', preds), (''Probability'', probas)]"
  proof
    assume a: "''Prediction'' \<notin> set (column_names df) \<and> ''Probability'' \<notin> set (column_names df)"
    then have "''Probability'' \<notin> set (column_names (set_column df ''Prediction'' preds))"
      by (simp add: set_column_names)
    with a show "columns df_out = columns df @ [(''Prediction'', preds), (''Probability'', probas)]"
      by (simp add: d2 set_column_new)
  qed
  show ?thesis
    apply (rule exI [of _ p], rule exI [of _ fc], rule exI [of _ df], rule exI [of _ df_sel])
    apply (rule exI [of _ df_checked], rule exI [of _ df_out], rule exI [of _ preds])
    apply (rule exI [of _ probas])
    apply (intro conjI p fc df sel val shape same conv pr pp resp len l1 l2 g1 g2 others names
        fresh)
    done
qed

theorem batch_output_table_witness:
  "predict_batch demo_ext demo_trained ''customers.csv'' ''batch'' =
     Inr \<lparr>csv_content = ''Geography,Age,Balance,HasCrCard,Notes,Prediction,Probability,'',
          content_disposition = ''attachment; filename=predictions_customers.csv''\<rparr>
   \<and> (\<exists>df df_checked preds.
         read_csv demo_ext ''batch'' = Inr df
       \<and> column_names df_checked = [''Geography'', ''Age'', ''Balance'', ''HasCrCard'']
       \<and> predict demo_ext demo_pipeline df_checked = Inr preds
       \<and> length (cells preds) = index_len df)"
proof -
  have h: "predict_batch demo_ext demo_trained ''customers.csv'' ''batch'' =
     Inr \<lparr>csv_content = ''Geography,Age,Balance,HasCrCard,Notes,Prediction,Probability,'',
          content_disposition = ''attachment; filename=predictions_customers.csv''\<rparr>"
    by code_simp
  have p: "pipeline demo_trained = Some demo_pipeline"
    and fc: "feature_columns demo_trained = Some [''Geography'', ''Age'', ''Balance'', ''HasCrCard'']"
    by (simp_all add: demo_trained_def)
  from batch_output_table [OF h]
  have "\<exists>df df_checked preds.
         read_csv demo_ext ''batch'' = Inr df
       \<and> column_names df_checked = [''Geography'', ''Age'', ''Balance'', ''HasCrCard'']
       \<and> predict demo_ext demo_pipeline df_checked = Inr preds
       \<and> length (cells preds) = index_len df"
    unfolding p fc option.inject by blast
  with h show ?thesis by (rule conjI)
qed

section \<open>Exceptions raised in the handlers\<close>






end
